theory Spec2Isabelle
  imports Main "HOL-Library.Sublist"
begin

section \<open>Syntax trees\<close>

text \<open>
  The instrumenter (packages/instrumenter/src/index.ts) works on the syntax tree that
  ts-morph builds for a source text. The tree is modelled for the fragment of the
  language the instrumenter inspects: a source file is a sequence of top-level
  statements, each a variable statement, an expression statement or an \<open>if\<close> statement
  without \<open>else\<close> whose body is a single statement (no block); expressions are
  numeric and string literals, identifiers, array literals, element accesses, property
  accesses, calls, parenthesised expressions and binary expressions with the operator
  tokens \<open>=\<close> and \<open>+\<close>. Every node carries its span: \<open>getStart\<close> (the position
  of its first token) and \<open>getEnd\<close>; \<open>getText\<close> is the slice of the file's text
  between them, as in ts-morph.
\<close>

type_synonym span = "nat \<times> nat"

datatype syntaxKind =
    NumericLiteral | StringLiteral | Identifier
  | ArrayLiteralExpression | ElementAccessExpression | PropertyAccessExpression
  | CallExpression | ParenthesizedExpression | BinaryExpression
  | EqualsToken | PlusToken
  | VariableDeclaration | VariableStatement | ExpressionStatement

datatype node =
    Num span
  | Str span
  | Ident span
  | ArrayLit span "node list"
  | ElementAccess span node "node option"
  | PropertyAccess span node span
  | Call span node "node list"
  | Paren span node
  | Binary span node syntaxKind node

datatype variableDeclaration = VarDecl span span "node option"

datatype statement =
    VariableStmt span "variableDeclaration list"
  | ExpressionStmt span node
  | IfStmt span node statement

record sourceFile =
  fullText :: string
  statements :: "statement list"

fun nodeSpan :: "node \<Rightarrow> span" where
  "nodeSpan (Num sp) = sp"
| "nodeSpan (Str sp) = sp"
| "nodeSpan (Ident sp) = sp"
| "nodeSpan (ArrayLit sp es) = sp"
| "nodeSpan (ElementAccess sp e a) = sp"
| "nodeSpan (PropertyAccess sp e n) = sp"
| "nodeSpan (Call sp f as) = sp"
| "nodeSpan (Paren sp e) = sp"
| "nodeSpan (Binary sp l k r) = sp"

fun getKind :: "node \<Rightarrow> syntaxKind" where
  "getKind (Num sp) = NumericLiteral"
| "getKind (Str sp) = StringLiteral"
| "getKind (Ident sp) = Identifier"
| "getKind (ArrayLit sp es) = ArrayLiteralExpression"
| "getKind (ElementAccess sp e a) = ElementAccessExpression"
| "getKind (PropertyAccess sp e n) = PropertyAccessExpression"
| "getKind (Call sp f as) = CallExpression"
| "getKind (Paren sp e) = ParenthesizedExpression"
| "getKind (Binary sp l k r) = BinaryExpression"

fun statementSpan :: "statement \<Rightarrow> span" where
  "statementSpan (VariableStmt sp ds) = sp"
| "statementSpan (ExpressionStmt sp e) = sp"
| "statementSpan (IfStmt sp c body) = sp"

definition getStart :: "statement \<Rightarrow> nat" where
  "getStart st = fst (statementSpan st)"

definition getEnd :: "statement \<Rightarrow> nat" where
  "getEnd st = snd (statementSpan st)"

definition sliceText :: "string \<Rightarrow> span \<Rightarrow> string" where
  "sliceText src sp = take (snd sp - fst sp) (drop (fst sp) src)"

definition getText :: "string \<Rightarrow> node \<Rightarrow> string" where
  "getText src n = sliceText src (nodeSpan n)"

definition statementText :: "string \<Rightarrow> statement \<Rightarrow> string" where
  "statementText src st = sliceText src (statementSpan st)"

text \<open>Accessors of the node kinds the instrumenter reads.\<close>

fun getElements :: "node \<Rightarrow> node list" where
  "getElements (ArrayLit sp es) = es"
| "getElements n = []"

fun getExpression :: "node \<Rightarrow> node option" where
  "getExpression (ElementAccess sp e a) = Some e"
| "getExpression n = None"

fun getArgumentExpression :: "node \<Rightarrow> node option" where
  "getArgumentExpression (ElementAccess sp e a) = a"
| "getArgumentExpression n = None"

fun getName :: "string \<Rightarrow> variableDeclaration \<Rightarrow> string" where
  "getName src (VarDecl sp nm ini) = sliceText src nm"

fun getInitializer :: "variableDeclaration \<Rightarrow> node option" where
  "getInitializer (VarDecl sp nm ini) = ini"

subsection \<open>Descendants in document order\<close>

text \<open>
  \<open>getDescendantsOfKind(SyntaxKind.BinaryExpression)\<close> lists the binary
  expressions below a node, parents before children and left before right.
\<close>

fun binaryExpressions :: "node \<Rightarrow> node list"
  and binaryExpressionsList :: "node list \<Rightarrow> node list" where
  "binaryExpressions (Num sp) = []"
| "binaryExpressions (Str sp) = []"
| "binaryExpressions (Ident sp) = []"
| "binaryExpressions (ArrayLit sp es) = binaryExpressionsList es"
| "binaryExpressions (ElementAccess sp e None) = binaryExpressions e"
| "binaryExpressions (ElementAccess sp e (Some a)) = binaryExpressions e @ binaryExpressions a"
| "binaryExpressions (PropertyAccess sp e n) = binaryExpressions e"
| "binaryExpressions (Call sp f as) = binaryExpressions f @ binaryExpressionsList as"
| "binaryExpressions (Paren sp e) = binaryExpressions e"
| "binaryExpressions (Binary sp l k r) =
     Binary sp l k r # binaryExpressions l @ binaryExpressions r"
| "binaryExpressionsList [] = []"
| "binaryExpressionsList (e # es) = binaryExpressions e @ binaryExpressionsList es"

fun initializerBinaries :: "variableDeclaration \<Rightarrow> node list" where
  "initializerBinaries (VarDecl sp nm None) = []"
| "initializerBinaries (VarDecl sp nm (Some e)) = binaryExpressions e"

text \<open>
  Each binary expression is paired with
  \<open>getFirstAncestorByKind(SyntaxKind.ExpressionStatement)\<close>: the enclosing statement
  when that is an expression statement, nothing inside a variable statement or the
  condition of an \<open>if\<close>.
\<close>

fun statementBinaries :: "statement \<Rightarrow> (node \<times> statement option) list" where
  "statementBinaries (VariableStmt sp ds) =
     map (\<lambda>e. (e, None)) (concat (map initializerBinaries ds))"
| "statementBinaries (ExpressionStmt sp e) =
     map (\<lambda>b. (b, Some (ExpressionStmt sp e))) (binaryExpressions e)"
| "statementBinaries (IfStmt sp c body) =
     map (\<lambda>e. (e, None)) (binaryExpressions c) @ statementBinaries body"

text \<open>
  \<open>getDescendantsOfKind(SyntaxKind.VariableDeclaration)\<close>, each declaration with
  \<open>getFirstAncestorByKind(SyntaxKind.VariableStatement)\<close>.
\<close>

fun statementDeclarations :: "statement \<Rightarrow> (variableDeclaration \<times> statement option) list" where
  "statementDeclarations (VariableStmt sp ds) =
     map (\<lambda>d. (d, Some (VariableStmt sp ds))) ds"
| "statementDeclarations (ExpressionStmt sp e) = []"
| "statementDeclarations (IfStmt sp c body) = statementDeclarations body"

text \<open>
  The statements that are the body of an \<open>if\<close>: their parent is the \<open>if\<close>
  statement itself, not a list of statements (\<open>getParentSyntaxList()\<close> is undefined).
\<close>

fun embeddedStatements :: "statement \<Rightarrow> statement list" where
  "embeddedStatements (VariableStmt sp ds) = []"
| "embeddedStatements (ExpressionStmt sp e) = []"
| "embeddedStatements (IfStmt sp c body) = body # embeddedStatements body"

definition hasParentSyntaxList :: "sourceFile \<Rightarrow> statement \<Rightarrow> bool" where
  "hasParentSyntaxList sf st = (st \<notin> set (concat (map embeddedStatements (statements sf))))"

section \<open>The instrumenter\<close>

text \<open>
  A collected transformation is the pair \<open>{ statement, newText }\<close> of the source: the
  anchor statement and the text that replaces it.
\<close>

type_synonym transformation = "statement \<times> string"

abbreviation quote :: char where
  "quote \<equiv> CHR 0x27"

text \<open>A JavaScript string is truthy when it is defined and not empty.\<close>

fun truthy :: "string option \<Rightarrow> bool" where
  "truthy None = False"
| "truthy (Some s) = (s \<noteq> [])"

subsection \<open>collectArrayDeclarations\<close>

definition declarationTransformation ::
  "string \<Rightarrow> variableDeclaration \<times> statement option \<Rightarrow> transformation list" where
  "declarationTransformation src da =
     (case da of (decl, ancestor) \<Rightarrow>
       (case getInitializer decl of
          None \<Rightarrow> []
        | Some initializer \<Rightarrow>
            if getKind initializer = ArrayLiteralExpression then
              (case ancestor of
                 None \<Rightarrow> []
               | Some st \<Rightarrow>
                   [(st, statementText src st @ ''\<newline>__trace.declare('' @ [quote]
                         @ getName src decl @ [quote] @ '', '' @ getName src decl @ '');'')])
            else []))"

definition collectArrayDeclarations :: "sourceFile \<Rightarrow> transformation list" where
  "collectArrayDeclarations sf =
     concat (map (declarationTransformation (fullText sf))
       (concat (map statementDeclarations (statements sf))))"

subsection \<open>collectArraySwaps\<close>

definition swapTransformation ::
  "string \<Rightarrow> node \<times> statement option \<Rightarrow> transformation list" where
  "swapTransformation src ea =
     (case ea of
        (Binary sp left operator right, ancestor) \<Rightarrow>
          if operator = EqualsToken then
            if getKind left = ArrayLiteralExpression \<and> getKind right = ArrayLiteralExpression then
              (let leftElements = getElements left; rightElements = getElements right in
               if length leftElements = 2 \<and> length rightElements = 2 then
                 (case ancestor of
                    None \<Rightarrow> []
                  | Some st \<Rightarrow>
                     (let firstLeft = leftElements ! 0; secondLeft = leftElements ! 1 in
                      if getKind firstLeft = ElementAccessExpression
                         \<and> getKind secondLeft = ElementAccessExpression then
                        (let arrayName = getText src (the (getExpression firstLeft));
                             index1 = map_option (getText src) (getArgumentExpression firstLeft);
                             index2 = map_option (getText src) (getArgumentExpression secondLeft) in
                         if truthy index1 \<and> truthy index2 then
                           [(st, statementText src st
                              @ ''\<newline>__trace.arrayWrite('' @ [quote] @ arrayName @ [quote] @ '', ''
                              @ the index1 @ '', '' @ arrayName @ ''['' @ the index1 @ '']);''
                              @ ''\<newline>__trace.arrayWrite('' @ [quote] @ arrayName @ [quote] @ '', ''
                              @ the index2 @ '', '' @ arrayName @ ''['' @ the index2 @ '']);''
                              @ ''\<newline>__trace.assign('' @ [quote] @ arrayName @ [quote] @ '', ''
                              @ arrayName @ '');'')]
                         else [])
                      else []))
               else [])
            else []
          else []
      | (other, ancestor) \<Rightarrow> [])"

definition allBinaryExpressions :: "sourceFile \<Rightarrow> (node \<times> statement option) list" where
  "allBinaryExpressions sf = concat (map statementBinaries (statements sf))"

definition collectArraySwaps :: "sourceFile \<Rightarrow> transformation list" where
  "collectArraySwaps sf =
     concat (map (swapTransformation (fullText sf)) (allBinaryExpressions sf))"

subsection \<open>collectArrayAssignments\<close>

definition assignmentTransformation ::
  "string \<Rightarrow> node \<times> statement option \<Rightarrow> transformation list" where
  "assignmentTransformation src ea =
     (case ea of
        (Binary sp left operator right, ancestor) \<Rightarrow>
          if operator = EqualsToken then
            if getKind left = ElementAccessExpression then
              (let arrayName = getText src (the (getExpression left));
                   indexExpr = getArgumentExpression left;
                   val = getText src right in
               case indexExpr of
                 None \<Rightarrow> []
               | Some ie \<Rightarrow>
                   (let index = getText src ie in
                    case ancestor of
                      None \<Rightarrow> []
                    | Some st \<Rightarrow>
                        [(st, statementText src st
                           @ ''\<newline>__trace.arrayWrite('' @ [quote] @ arrayName @ [quote] @ '', ''
                           @ index @ '', '' @ val @ '');'')]))
            else []
          else []
      | (other, ancestor) \<Rightarrow> [])"

definition collectArrayAssignments :: "sourceFile \<Rightarrow> transformation list" where
  "collectArrayAssignments sf =
     concat (map (assignmentTransformation (fullText sf)) (allBinaryExpressions sf))"

subsection \<open>transformSourceFile\<close>

text \<open>
  The transformations are sorted by the anchor's start, descending (JavaScript's sort is
  stable), and applied in that order. \<open>replaceWithText\<close> replaces the statement's
  span in the file's text and forgets the statement node; a transformation whose
  statement \<open>wasForgotten\<close> is skipped. The state of the loop is the text and the
  forgotten statements. The span is the one the statement had when it was collected:
  going from the bottom of the file to the top, a replacement never moves a statement
  that is still to be replaced.

  \<open>replaceWithText\<close> is ts-morph's. The new text always holds more than one
  statement (the anchor and the inserted calls). Among the statements of a list that
  is accepted; for the body of an \<open>if\<close> the file parsed again has one statement more
  beside the \<open>if\<close>, the old and the new tree do not match, and ts-morph throws a
  manipulation error, which ends the loop. Its message goes on with the details of the
  two trees; only its beginning is kept here.
\<close>

definition manipulationError :: string where
  "manipulationError = ''Manipulation error: Error replacing tree''"

definition replaceWithText :: "sourceFile \<Rightarrow> statement \<Rightarrow> string \<Rightarrow> string \<Rightarrow> string + string" where
  "replaceWithText sf st newText txt =
     (if hasParentSyntaxList sf st
      then Inr (take (getStart st) txt @ newText @ drop (getEnd st) txt)
      else Inl manipulationError)"

fun applyTransformations ::
  "sourceFile \<Rightarrow> transformation list \<Rightarrow> string \<times> statement list
     \<Rightarrow> string + string \<times> statement list" where
  "applyTransformations sf [] state = Inr state"
| "applyTransformations sf ((st, newText) # ts) (txt, forgotten) =
     (if st \<notin> set forgotten then
        (case replaceWithText sf st newText txt of
           Inl err \<Rightarrow> Inl err
         | Inr txt' \<Rightarrow> applyTransformations sf ts (txt', st # forgotten))
      else applyTransformations sf ts (txt, forgotten))"

definition sortTransformations :: "transformation list \<Rightarrow> transformation list" where
  "sortTransformations ts = sort_key (\<lambda>t. - int (getStart (fst t))) ts"

definition collectTransformations :: "sourceFile \<Rightarrow> transformation list" where
  "collectTransformations sf =
     collectArrayDeclarations sf @ collectArraySwaps sf @ collectArrayAssignments sf"

text \<open>
  The text of the source file after the transformations (\<open>getFullText\<close>), or the
  message of the error thrown on the way.
\<close>

definition transformSourceFile :: "sourceFile \<Rightarrow> string + string" where
  "transformSourceFile sf =
     (case applyTransformations sf (sortTransformations (collectTransformations sf))
             (fullText sf, []) of
        Inl err \<Rightarrow> Inl err
      | Inr (txt, forgotten) \<Rightarrow> Inr txt)"

subsection \<open>instrument\<close>

text \<open>
  The parser is ts-morph's, outside the repository: it is a parameter, a function from
  the file path and the text to the statements of the file, or to the message of an
  error it throws. The parser is error-tolerant: for a text with syntax errors it
  still returns statements (and keeps diagnostics, which the source never reads). The
  third outcome, \<open>OutsideFragment\<close>, is for the parser of this theory on a text whose
  tree it does not model; \<open>instrument\<close> has no result then.
\<close>

datatype parseOutcome = ParseError string | Parsed "statement list" | OutsideFragment

type_synonym parser = "string \<Rightarrow> string \<Rightarrow> parseOutcome"

record instrumentOptions =
  filePath :: "string option"

record instrumentResult =
  code :: string
  success :: bool
  error :: "string option"

text \<open>\<open>options.filePath || 'temp.ts'\<close>\<close>

definition sourcePath :: "instrumentOptions \<Rightarrow> string" where
  "sourcePath options =
     (case filePath options of
        None \<Rightarrow> ''temp.ts''
      | Some p \<Rightarrow> if p = [] then ''temp.ts'' else p)"

text \<open>
  The method \<open>CodeInstrumenter.instrument\<close>. The \<open>try\<close> block covers
  \<open>createSourceFile\<close>, \<open>transformSourceFile\<close> and \<open>getFullText\<close>; whatever is
  thrown there, the \<open>catch\<close> block returns the source code it was given with
  \<open>success: false\<close> and the message. The project of the instrumenter is ts-morph's
  in-memory file system; what it keeps from one call to the next is inside ts-morph and
  is not modelled.
\<close>

definition CodeInstrumenter_instrument ::
  "parser \<Rightarrow> string \<Rightarrow> instrumentOptions \<Rightarrow> instrumentResult option" where
  "CodeInstrumenter_instrument parse sourceCode options =
     (case parse (sourcePath options) sourceCode of
        OutsideFragment \<Rightarrow> None
      | ParseError err \<Rightarrow> Some \<lparr>code = sourceCode, success = False, error = Some err\<rparr>
      | Parsed sts \<Rightarrow>
          (case transformSourceFile \<lparr>fullText = sourceCode, statements = sts\<rparr> of
             Inl err \<Rightarrow> Some \<lparr>code = sourceCode, success = False, error = Some err\<rparr>
           | Inr newCode \<Rightarrow> Some \<lparr>code = newCode, success = True, error = None\<rparr>))"

text \<open>The exported function: a new \<open>CodeInstrumenter\<close> for every call.\<close>

definition instrument :: "parser \<Rightarrow> string \<Rightarrow> instrumentOptions \<Rightarrow> instrumentResult option" where
  "instrument parse sourceCode options = CodeInstrumenter_instrument parse sourceCode options"

section \<open>A parser for the fragment\<close>

text \<open>
  To run the instrumenter and the executor on concrete source texts, the fragment has a
  scanner and a parser of its own, standing in for the TypeScript parser (in the
  instrumenter) and for the engine's parser (in the executor) on the texts it accepts.
  It models \<open>const\<close> and \<open>let\<close> statements with initialisers, expression
  statements, each ended by a semicolon, and \<open>if\<close> statements without \<open>else\<close> whose
  body is an expression statement or another such \<open>if\<close>. Like the TypeScript parser
  it is error-tolerant in two places: a closing bracket, a comma or an equals sign where
  a statement or the name of a declared variable should start is skipped, and a list of
  declarations may be empty; the first syntax error is kept as a diagnostic, which the
  instrumenter never reads and with which the engine refuses the script. Every other
  text is outside the fragment: the parser has no result for it, which says nothing
  about what the real parsers do with it. Results that hold for every parser take the
  parser as a parameter and do not depend on this one.
\<close>

datatype tokenKind = IdentifierTok | NumericTok | StringTok | PunctuationTok

type_synonym token = "tokenKind \<times> string \<times> nat"

definition isWhiteSpace :: "char \<Rightarrow> bool" where
  "isWhiteSpace c = (c \<in> set [CHR '' '', CHR 0x0A, CHR 0x09, CHR 0x0D])"

definition isDigit :: "char \<Rightarrow> bool" where
  "isDigit c = (c \<in> set ''0123456789'')"

definition isIdentifierStart :: "char \<Rightarrow> bool" where
  "isIdentifierStart c =
     (c \<in> set ''abcdefghijklmnopqrstuvwxyzABCDEFGHIJKLMNOPQRSTUVWXYZ_$'')"

definition isIdentifierPart :: "char \<Rightarrow> bool" where
  "isIdentifierPart c = (isIdentifierStart c \<or> isDigit c)"

definition isPunctuation :: "char \<Rightarrow> bool" where
  "isPunctuation c = (c \<in> set ''[](),;=+.'')"

text \<open>
  Numbers are sequences of decimal digits and strings are single-quoted without escape
  sequences; a number followed by a dot or a letter (a fraction, a hexadecimal or a big
  integer) and a string with a backslash or a line break are outside the fragment.
\<close>

fun continuesNumber :: "string \<Rightarrow> bool" where
  "continuesNumber [] = False"
| "continuesNumber (d # ds) = (d = CHR ''.'' \<or> isIdentifierStart d)"

definition escapesOrBreaks :: "char \<Rightarrow> bool" where
  "escapesOrBreaks c = (c \<in> set [CHR 0x5C, CHR 0x0A, CHR 0x0D])"

function scanTokens :: "nat \<Rightarrow> string \<Rightarrow> token list option" where
  "scanTokens pos [] = Some []"
| "scanTokens pos (c # cs) =
     (if isWhiteSpace c then scanTokens (pos + 1) cs
      else if isIdentifierStart c then
        (let w = c # takeWhile isIdentifierPart cs in
         map_option ((#) (IdentifierTok, w, pos))
           (scanTokens (pos + length w) (dropWhile isIdentifierPart cs)))
      else if isDigit c then
        (let w = c # takeWhile isDigit cs in
         if continuesNumber (dropWhile isDigit cs) then None
         else map_option ((#) (NumericTok, w, pos))
           (scanTokens (pos + length w) (dropWhile isDigit cs)))
      else if c = quote then
        (case dropWhile (\<lambda>d. d \<noteq> quote) cs of
           [] \<Rightarrow> None
         | q # rest \<Rightarrow>
             (let w = c # takeWhile (\<lambda>d. d \<noteq> quote) cs @ [q] in
              if list_ex escapesOrBreaks w then None
              else map_option ((#) (StringTok, w, pos)) (scanTokens (pos + length w) rest)))
      else if isPunctuation c then
        map_option ((#) (PunctuationTok, [c], pos)) (scanTokens (pos + 1) cs)
      else None)"
  by pat_completeness auto
termination
proof (relation "measure (\<lambda>(pos, cs). length cs)", goal_cases)
  case (5 pos c cs w q rest)
  have "length (dropWhile (\<lambda>d. d \<noteq> quote) cs) \<le> length cs"
    by (rule length_dropWhile_le)
  with 5 show ?case by simp
qed (auto simp: le_imp_less_Suc length_dropWhile_le)

definition reservedWords :: "string list" where
  "reservedWords =
     [''const'', ''let'', ''var'', ''function'', ''return'', ''if'', ''else'', ''for'',
      ''while'', ''do'', ''new'', ''delete'', ''typeof'', ''void'', ''in'', ''of'',
      ''instanceof'', ''this'', ''null'', ''true'', ''false'', ''throw'', ''try'',
      ''catch'', ''finally'', ''class'', ''switch'', ''case'', ''default'', ''break'',
      ''continue'', ''yield'', ''await'', ''async'', ''import'', ''export'', ''super'',
      ''with'', ''debugger'', ''enum'', ''extends'']"

fun punct :: "string \<Rightarrow> token list \<Rightarrow> bool" where
  "punct s ((PunctuationTok, t, p) # ts) = (t = s)"
| "punct s ts = False"

fun tokenEnd :: "token \<Rightarrow> nat" where
  "tokenEnd (k, t, p) = p + length t"

text \<open>
  Recursive descent. The parser of assignment expressions is passed to the parsers of
  the smaller phrases as \<open>pe\<close>; its own recursion is bounded by the nesting depth,
  and the loops over a phrase's parts by the number of tokens left (every turn consumes
  one). The parser rejects the text when a bound is reached.
\<close>

type_synonym expressionParser = "token list \<Rightarrow> (node \<times> token list) option"

fun parseElements ::
  "expressionParser \<Rightarrow> nat \<Rightarrow> string \<Rightarrow> bool \<Rightarrow> token list
     \<Rightarrow> (node list \<times> nat \<times> token list) option" where
  "parseElements pe 0 closer first ts = None"
| "parseElements pe (Suc k) closer first ts =
     (if punct closer ts then Some ([], tokenEnd (hd ts), tl ts)
      else if first \<or> punct '','' ts then
        (case pe (if first then ts else tl ts) of
           None \<Rightarrow> None
         | Some (e, ts1) \<Rightarrow>
             (case parseElements pe k closer False ts1 of
                None \<Rightarrow> None
              | Some (es, e', ts2) \<Rightarrow> Some (e # es, e', ts2)))
      else None)"

definition parsePrimary :: "expressionParser \<Rightarrow> expressionParser" where
  "parsePrimary pe ts =
     (case ts of
        [] \<Rightarrow> None
      | (kind, w, p) # rest \<Rightarrow>
          if kind = NumericTok then Some (Num (p, p + length w), rest)
          else if kind = StringTok then Some (Str (p, p + length w), rest)
          else if kind = IdentifierTok then
            (if w \<in> set reservedWords then None else Some (Ident (p, p + length w), rest))
          else if w = ''['' then
            (case parseElements pe (Suc (length rest)) '']'' True rest of
               None \<Rightarrow> None
             | Some (es, e', ts1) \<Rightarrow> Some (ArrayLit (p, e') es, ts1))
          else if w = ''('' then
            (case pe rest of
               None \<Rightarrow> None
             | Some (e, ts1) \<Rightarrow>
                 if punct '')'' ts1 then Some (Paren (p, tokenEnd (hd ts1)) e, tl ts1)
                 else None)
          else None)"

fun parsePostfixRest ::
  "expressionParser \<Rightarrow> nat \<Rightarrow> node \<Rightarrow> expressionParser" where
  "parsePostfixRest pe 0 e ts = None"
| "parsePostfixRest pe (Suc k) e ts =
     (if punct ''['' ts then
        (case pe (tl ts) of
           None \<Rightarrow> None
         | Some (a, ts1) \<Rightarrow>
             if punct '']'' ts1 then
               parsePostfixRest pe k
                 (ElementAccess (fst (nodeSpan e), tokenEnd (hd ts1)) e (Some a)) (tl ts1)
             else None)
      else if punct ''.'' ts then
        (case tl ts of
           [] \<Rightarrow> None
         | (kind, w, p) # ts1 \<Rightarrow>
             if kind = IdentifierTok then
               parsePostfixRest pe k
                 (PropertyAccess (fst (nodeSpan e), p + length w) e (p, p + length w)) ts1
             else None)
      else if punct ''('' ts then
        (case parseElements pe (length ts) '')'' True (tl ts) of
           None \<Rightarrow> None
         | Some (as, e', ts1) \<Rightarrow>
             parsePostfixRest pe k (Call (fst (nodeSpan e), e') e as) ts1)
      else Some (e, ts))"

definition parsePostfix :: "expressionParser \<Rightarrow> expressionParser" where
  "parsePostfix pe ts =
     (case parsePrimary pe ts of
        None \<Rightarrow> None
      | Some (e, ts1) \<Rightarrow> parsePostfixRest pe (Suc (length ts1)) e ts1)"

fun parseAdditiveRest ::
  "expressionParser \<Rightarrow> nat \<Rightarrow> node \<Rightarrow> expressionParser" where
  "parseAdditiveRest pe 0 l ts = None"
| "parseAdditiveRest pe (Suc k) l ts =
     (if punct ''+'' ts then
        (case parsePostfix pe (tl ts) of
           None \<Rightarrow> None
         | Some (r, ts1) \<Rightarrow>
             parseAdditiveRest pe k
               (Binary (fst (nodeSpan l), snd (nodeSpan r)) l PlusToken r) ts1)
      else Some (l, ts))"

primrec parseAssignment :: "nat \<Rightarrow> expressionParser" where
  "parseAssignment 0 ts = None"
| "parseAssignment (Suc n) ts =
     (case parsePostfix (parseAssignment n) ts of
        None \<Rightarrow> None
      | Some (l, ts1) \<Rightarrow>
          (case parseAdditiveRest (parseAssignment n) (Suc (length ts1)) l ts1 of
             None \<Rightarrow> None
           | Some (l', ts2) \<Rightarrow>
               if punct ''='' ts2 then
                 (case parseAssignment n (tl ts2) of
                    None \<Rightarrow> None
                  | Some (r, ts3) \<Rightarrow>
                      Some (Binary (fst (nodeSpan l'), snd (nodeSpan r)) l' EqualsToken r, ts3))
               else Some (l', ts2)))"

text \<open>
  Statements. Beside the statements, the parser returns the first syntax error as the
  engine words it, if there is one.
\<close>

definition cannotStartStatement :: "token \<Rightarrow> bool" where
  "cannotStartStatement t =
     (fst t = PunctuationTok \<and> fst (snd t) \<in> set ['')'', '']'', '','', ''=''])"

definition unexpectedToken :: "string \<Rightarrow> string" where
  "unexpectedToken w = ''Unexpected token '' @ [quote] @ w @ [quote]"

fun keyword :: "string \<Rightarrow> token list \<Rightarrow> bool" where
  "keyword s ((IdentifierTok, t, p) # ts) = (t = s)"
| "keyword s ts = False"

fun parseDeclarations ::
  "expressionParser \<Rightarrow> nat \<Rightarrow> token list
     \<Rightarrow> (variableDeclaration list \<times> string option \<times> nat \<times> token list) option" where
  "parseDeclarations pe 0 ts = None"
| "parseDeclarations pe (Suc k) [] = None"
| "parseDeclarations pe (Suc k) ((kind, w, p) # ts) =
     (if kind = IdentifierTok then
        (if w \<in> set reservedWords \<or> \<not> punct ''='' ts then None
         else
           (case pe (tl ts) of
              None \<Rightarrow> None
            | Some (e, ts1) \<Rightarrow>
                (let d = VarDecl (p, snd (nodeSpan e)) (p, p + length w) (Some e) in
                 if punct '';'' ts1 then Some ([d], None, tokenEnd (hd ts1), tl ts1)
                 else if punct '','' ts1 then
                   (case parseDeclarations pe k (tl ts1) of
                      None \<Rightarrow> None
                    | Some (ds, diag, e', ts2) \<Rightarrow> Some (d # ds, diag, e', ts2))
                 else None)))
      else if kind = PunctuationTok \<and> w = '';'' then
        Some ([], Some (unexpectedToken w), p + 1, ts)
      else if cannotStartStatement (kind, w, p) then
        (case parseDeclarations pe k ts of
           None \<Rightarrow> None
         | Some (ds, diag, e', ts1) \<Rightarrow> Some (ds, Some (unexpectedToken w), e', ts1))
      else None)"

text \<open>
  \<open>const\<close> always starts a variable statement; \<open>let\<close> does only before a name
  (elsewhere it is an identifier, which the fragment leaves out).
\<close>

fun startsWithIdentifier :: "token list \<Rightarrow> bool" where
  "startsWithIdentifier ((IdentifierTok, t, p) # ts) = True"
| "startsWithIdentifier ts = False"

fun parseStatement ::
  "expressionParser \<Rightarrow> nat \<Rightarrow> token list
     \<Rightarrow> (statement \<times> string option \<times> token list) option" where
  "parseStatement pe k [] = None"
| "parseStatement pe k ((kind, w, p) # ts) =
     (if kind = IdentifierTok \<and> w = ''let'' \<and> \<not> startsWithIdentifier ts then None
      else if kind = IdentifierTok \<and> (w = ''const'' \<or> w = ''let'') then
        (case parseDeclarations pe (length ts) ts of
           None \<Rightarrow> None
         | Some (ds, diag, e', ts1) \<Rightarrow> Some (VariableStmt (p, e') ds, diag, ts1))
      else if kind = IdentifierTok \<and> w = ''if'' then
        (case k of
           0 \<Rightarrow> None
         | Suc k' \<Rightarrow>
             if punct ''('' ts then
               (case pe (tl ts) of
                  None \<Rightarrow> None
                | Some (c, ts1) \<Rightarrow>
                    if punct '')'' ts1 \<and> \<not> keyword ''const'' (tl ts1)
                         \<and> \<not> keyword ''let'' (tl ts1) then
                      (case parseStatement pe k' (tl ts1) of
                         None \<Rightarrow> None
                       | Some (body, diag, ts2) \<Rightarrow>
                           if keyword ''else'' ts2 then None
                           else Some (IfStmt (p, getEnd body) c body, diag, ts2))
                    else None)
             else None)
      else
        (case pe ((kind, w, p) # ts) of
           None \<Rightarrow> None
         | Some (e, ts1) \<Rightarrow>
             if punct '';'' ts1 then
               Some (ExpressionStmt (fst (nodeSpan e), tokenEnd (hd ts1)) e, None, tl ts1)
             else None))"

fun parseStatementList ::
  "expressionParser \<Rightarrow> nat \<Rightarrow> token list \<Rightarrow> (statement list \<times> string option) option" where
  "parseStatementList pe k [] = Some ([], None)"
| "parseStatementList pe 0 (t # ts) = None"
| "parseStatementList pe (Suc k) (t # ts) =
     (if cannotStartStatement t then
        (case parseStatementList pe k ts of
           None \<Rightarrow> None
         | Some (sts, diag) \<Rightarrow> Some (sts, Some (unexpectedToken (fst (snd t)))))
      else
        (case parseStatement pe (length ts) (t # ts) of
           None \<Rightarrow> None
         | Some (st, diag, ts1) \<Rightarrow>
             (case parseStatementList pe k ts1 of
                None \<Rightarrow> None
              | Some (sts, diag') \<Rightarrow>
                  Some (st # sts, case diag of None \<Rightarrow> diag' | Some m \<Rightarrow> Some m))))"

text \<open>
  Inside a list of declarations the TypeScript parser ends the list at a line break
  where this parser skips a token, so a text with a syntax error and a line break is
  outside the fragment.
\<close>

definition parseStatements :: "string \<Rightarrow> (statement list \<times> string option) option" where
  "parseStatements src =
     (case scanTokens 0 src of
        None \<Rightarrow> None
      | Some ts \<Rightarrow>
          (case parseStatementList (parseAssignment (Suc (length ts))) (length ts) ts of
             None \<Rightarrow> None
           | Some (sts, diag) \<Rightarrow>
               if diag \<noteq> None \<and> (CHR 0x0A \<in> set src \<or> CHR 0x0D \<in> set src) then None
               else Some (sts, diag)))"

text \<open>
  The fragment's parser as a parser of the instrumenter. The file's extension selects
  the language; the fragment is TypeScript, a path ending in \<open>.ts\<close> but not in
  \<open>.d.ts\<close>. The TypeScript parser never throws on a text of the fragment, with or
  without syntax errors.
\<close>

definition endsWith :: "string \<Rightarrow> string \<Rightarrow> bool" where
  "endsWith s path = (length s \<le> length path \<and> drop (length path - length s) path = s)"

definition typeScriptPath :: "string \<Rightarrow> bool" where
  "typeScriptPath path = (endsWith ''.ts'' path \<and> \<not> endsWith ''.d.ts'' path)"

definition fragmentParser :: parser where
  "fragmentParser path src =
     (if typeScriptPath path then
        (case parseStatements src of
           None \<Rightarrow> OutsideFragment
         | Some (sts, diag) \<Rightarrow> Parsed sts)
      else OutsideFragment)"

section \<open>The trace runtime\<close>

text \<open>
  The executor (packages/executor) builds a sandbox whose \<open>__trace\<close> object collects
  the events. Values of the executed program are numbers (integers here), strings,
  \<open>undefined\<close>, \<open>null\<close> and references to arrays in a store; \<open>__trace\<close> and its
  methods are values too, and the other globals of the sandbox are opaque host objects.
  An array is the list of its elements, stored under its address.
\<close>

datatype jsValue =
    VUndefined | VNull | VNumber int | VString string
  | VArray nat | VTrace | VMethod string | VHost

type_synonym heap = "jsValue list list"

record traceEvent =
  id' :: nat
  timestamp :: int
  type' :: string
  data :: "(string \<times> jsValue) list"

record traceRuntime =
  eventId :: nat
  startTime :: int
  events :: "traceEvent list"

text \<open>
  The sandbox: the \<open>__trace\<close> object, the store of arrays, the global bindings, the
  wall clock (\<open>clock k\<close> is what the \<open>k\<close>-th call of \<open>Date.now()\<close> returns), and
  the names a running script declares with \<open>const\<close> or \<open>let\<close> and has not
  initialised yet.
\<close>

record sandbox =
  traceObject :: traceRuntime
  heap :: heap
  bindings :: "(string \<times> jsValue) list"
  clock :: "nat \<Rightarrow> int"
  ticks :: nat
  uninitialized :: "string list"

text \<open>
  How an evaluation ends: normally with a value, by throwing an error (with its
  message), or outside what is modelled.
\<close>

datatype 'a completion = Normal 'a | Throw string | Unmodelled

fun abrupt :: "'a completion \<Rightarrow> 'b completion" where
  "abrupt (Throw m) = Throw m"
| "abrupt c = Unmodelled"

definition Date_now :: "sandbox \<Rightarrow> int \<times> sandbox" where
  "Date_now s = (clock s (ticks s), s\<lparr>ticks := Suc (ticks s)\<rparr>)"

subsection \<open>Structural clone through JSON\<close>

datatype json = JNull | JNumber int | JString string | JArray "json list"

fun sequence :: "'a completion list \<Rightarrow> 'a list completion" where
  "sequence [] = Normal []"
| "sequence (Normal x # cs) =
     (case sequence cs of Normal xs \<Rightarrow> Normal (x # xs) | c \<Rightarrow> abrupt c)"
| "sequence (c # cs) = abrupt c"

text \<open>
  \<open>JSON.stringify\<close> of a value inside the store. \<open>stack\<close> holds the arrays being
  serialised: meeting one of them again is a circular structure, a \<open>TypeError\<close>.
  \<open>undefined\<close> and functions inside an array become \<open>null\<close>.
\<close>

function serializeJSON :: "heap \<Rightarrow> nat list \<Rightarrow> jsValue \<Rightarrow> json completion" where
  "serializeJSON h stack VUndefined = Normal JNull"
| "serializeJSON h stack VNull = Normal JNull"
| "serializeJSON h stack (VNumber n) = Normal (JNumber n)"
| "serializeJSON h stack (VString s) = Normal (JString s)"
| "serializeJSON h stack (VMethod m) = Normal JNull"
| "serializeJSON h stack VTrace = Unmodelled"
| "serializeJSON h stack VHost = Unmodelled"
| "serializeJSON h stack (VArray p) =
     (if p \<in> set stack then Throw ''TypeError: Converting circular structure to JSON''
      else if p < length h then
        (case sequence (map (serializeJSON h (p # stack)) (h ! p)) of
           Normal js \<Rightarrow> Normal (JArray js)
         | c \<Rightarrow> abrupt c)
      else Unmodelled)"
  by pat_completeness auto
termination
proof (relation "measure (\<lambda>(h, stack, v). card ({..<length h} - set stack))", goal_cases)
  case 1
  show ?case by simp
next
  case (2 h stack p x)
  then have "{..<length h} - set (p # stack) \<subset> {..<length h} - set stack"
    by auto
  then have "card ({..<length h} - set (p # stack)) < card ({..<length h} - set stack)"
    by (intro psubset_card_mono) auto
  then show ?case by simp
qed

text \<open>\<open>JSON.parse\<close> builds new arrays in the store.\<close>

fun allocate :: "json \<Rightarrow> heap \<Rightarrow> jsValue \<times> heap"
  and allocateList :: "json list \<Rightarrow> heap \<Rightarrow> jsValue list \<times> heap" where
  "allocate JNull h = (VNull, h)"
| "allocate (JNumber n) h = (VNumber n, h)"
| "allocate (JString s) h = (VString s, h)"
| "allocate (JArray js) h =
     (case allocateList js h of (vs, h1) \<Rightarrow> (VArray (length h1), h1 @ [vs]))"
| "allocateList [] h = ([], h)"
| "allocateList (j # js) h =
     (case allocate j h of (v, h1) \<Rightarrow>
        (case allocateList js h1 of (vs, h2) \<Rightarrow> (v # vs, h2)))"

text \<open>
  \<open>JSON.parse(JSON.stringify(value))\<close>. \<open>JSON.stringify\<close> of \<open>undefined\<close> or of
  a function is \<open>undefined\<close>, which \<open>JSON.parse\<close> rejects with a \<open>SyntaxError\<close>.
\<close>

fun stringifiesToUndefined :: "jsValue \<Rightarrow> bool" where
  "stringifiesToUndefined VUndefined = True"
| "stringifiesToUndefined (VMethod m) = True"
| "stringifiesToUndefined v = False"

definition jsonClone :: "jsValue \<Rightarrow> sandbox \<Rightarrow> jsValue completion \<times> sandbox" where
  "jsonClone v s =
     (if stringifiesToUndefined v then
        (Throw ''SyntaxError: undefined is not valid JSON'', s)
      else
        (case serializeJSON (heap s) [] v of
           Normal j \<Rightarrow> (case allocate j (heap s) of (w, h1) \<Rightarrow> (Normal w, s\<lparr>heap := h1\<rparr>))
         | c \<Rightarrow> (abrupt c, s)))"

subsection \<open>The methods of \<open>__trace\<close>\<close>

definition trace_emit :: "string \<Rightarrow> (string \<times> jsValue) list \<Rightarrow> sandbox \<Rightarrow> sandbox" where
  "trace_emit ty d s =
     (case Date_now s of (now, s1) \<Rightarrow>
        s1\<lparr>traceObject :=
             (traceObject s1)
               \<lparr>events := events (traceObject s1) @
                   [\<lparr>id' = eventId (traceObject s1),
                     timestamp = now - startTime (traceObject s1),
                     type' = ty, data = d\<rparr>],
                eventId := eventId (traceObject s1) + 1\<rparr>\<rparr>)"

definition trace_declare :: "jsValue \<Rightarrow> jsValue \<Rightarrow> sandbox \<Rightarrow> unit completion \<times> sandbox" where
  "trace_declare name v s =
     (case jsonClone v s of
        (Normal w, s1) \<Rightarrow>
          (Normal (), trace_emit ''variable:declare'' [(''name'', name), (''value'', w)] s1)
      | (c, s1) \<Rightarrow> (abrupt c, s1))"

definition trace_assign :: "jsValue \<Rightarrow> jsValue \<Rightarrow> sandbox \<Rightarrow> unit completion \<times> sandbox" where
  "trace_assign name v s =
     (case jsonClone v s of
        (Normal w, s1) \<Rightarrow>
          (Normal (), trace_emit ''variable:assign'' [(''name'', name), (''value'', w)] s1)
      | (c, s1) \<Rightarrow> (abrupt c, s1))"

definition trace_arrayWrite ::
  "jsValue \<Rightarrow> jsValue \<Rightarrow> jsValue \<Rightarrow> sandbox \<Rightarrow> unit completion \<times> sandbox" where
  "trace_arrayWrite name index v s =
     (Normal (), trace_emit ''array:write'' [(''name'', name), (''index'', index), (''value'', v)] s)"

definition trace_getTrace :: "sandbox \<Rightarrow> traceEvent list" where
  "trace_getTrace s = events (traceObject s)"

text \<open>\<open>createSandbox\<close>: the globals the source lists, and a new \<open>__trace\<close>.\<close>

definition createSandbox :: "(nat \<Rightarrow> int) \<Rightarrow> nat \<Rightarrow> sandbox" where
  "createSandbox clk k =
     \<lparr>traceObject = \<lparr>eventId = 0, startTime = clk k, events = []\<rparr>,
      heap = [],
      bindings =
        [(''console'', VHost), (''Math'', VHost), (''Date'', VHost), (''JSON'', VHost),
         (''Array'', VHost), (''Object'', VHost), (''String'', VHost), (''Number'', VHost),
         (''Boolean'', VHost), (''__trace'', VTrace)],
      clock = clk, ticks = Suc k, uninitialized = []\<rparr>"

text \<open>A clock that stands still, for runs on concrete inputs.\<close>

definition stoppedClock :: "nat \<Rightarrow> int" where
  "stoppedClock k = 0"

section \<open>Running instrumented code\<close>

text \<open>
  \<open>vm.runInNewContext\<close> belongs to the engine, outside the repository: the executor
  takes it as a parameter, a function from the code and the sandbox to the way the run
  ends and the sandbox it leaves. For concrete runs the fragment has an evaluator,
  \<open>runFragment\<close>. It follows the evaluation order of the language: the operands of
  an assignment to \<open>a[i]\<close> are evaluated base, index, right-hand side, then the element
  is stored; a destructuring assignment evaluates its right-hand side first, then for
  each target evaluates the target's base and index, reads the next element of the
  right-hand side and stores it. Reading an identifier that is not bound throws a
  \<open>ReferenceError\<close>, with another message when the script declares the name further
  down. A script with a syntax error throws a \<open>SyntaxError\<close> before anything runs. The
  errors are those of the new context, not instances of the executor's \<open>Error\<close>, so
  the message the executor reports is the error as a string, its name first. Everything
  else the evaluator does not cover ends \<open>Unmodelled\<close>.
\<close>

text \<open>
  The value of a decimal literal. A literal of several digits that starts with \<open>0\<close>
  is not decimal (\<open>010\<close> is octal, 8) and has no value here.
\<close>

definition digitsValue :: "string \<Rightarrow> int option" where
  "digitsValue ds =
     (if ds = [] \<or> (hd ds = CHR ''0'' \<and> length ds > 1) then None
      else Some (foldl (\<lambda>n c. 10 * n + (int (of_char c) - 48)) 0 ds))"

definition safeInteger :: "int \<Rightarrow> bool" where
  "safeInteger n = (\<bar>n\<bar> \<le> 9007199254740991)"

text \<open>Names every context binds besides the sandbox's own; reading them is not modelled.\<close>

definition standardGlobals :: "string list" where
  "standardGlobals =
     [''globalThis'', ''undefined'', ''NaN'', ''Infinity'', ''eval'', ''isFinite'', ''isNaN'',
      ''parseFloat'', ''parseInt'', ''decodeURI'', ''decodeURIComponent'', ''encodeURI'',
      ''encodeURIComponent'', ''escape'', ''unescape'', ''Function'', ''Symbol'', ''Error'',
      ''AggregateError'', ''EvalError'', ''RangeError'', ''ReferenceError'', ''SyntaxError'',
      ''TypeError'', ''URIError'', ''BigInt'', ''RegExp'', ''Map'', ''Set'', ''WeakMap'',
      ''WeakSet'', ''WeakRef'', ''FinalizationRegistry'', ''ArrayBuffer'',
      ''SharedArrayBuffer'', ''DataView'', ''Atomics'', ''Int8Array'', ''Uint8Array'',
      ''Uint8ClampedArray'', ''Int16Array'', ''Uint16Array'', ''Int32Array'', ''Uint32Array'',
      ''Float32Array'', ''Float64Array'', ''BigInt64Array'', ''BigUint64Array'', ''Promise'',
      ''Proxy'', ''Reflect'', ''Intl'', ''WebAssembly'', ''Iterator'']"

definition readIdentifier :: "string \<Rightarrow> sandbox \<Rightarrow> jsValue completion" where
  "readIdentifier x s =
     (if x \<in> set (uninitialized s) then
        Throw (''ReferenceError: Cannot access '' @ [quote] @ x @ [quote]
               @ '' before initialization'')
      else
        (case map_of (bindings s) x of
           Some v \<Rightarrow> Normal v
         | None \<Rightarrow>
             if x \<in> set standardGlobals then Unmodelled
             else Throw (''ReferenceError: '' @ x @ '' is not defined'')))"

definition getElement :: "jsValue \<Rightarrow> jsValue \<Rightarrow> sandbox \<Rightarrow> jsValue completion" where
  "getElement b i s =
     (case (b, i) of
        (VArray p, VNumber k) \<Rightarrow>
          if p < length (heap s) then
            (if 0 \<le> k \<and> nat k < length (heap s ! p) then Normal (heap s ! p ! nat k)
             else Normal VUndefined)
          else Unmodelled
      | (VUndefined, j) \<Rightarrow> Throw ''TypeError: Cannot read properties of undefined''
      | (VNull, j) \<Rightarrow> Throw ''TypeError: Cannot read properties of null''
      | (c, j) \<Rightarrow> Unmodelled)"

text \<open>Storing past the end of an array extends it; the holes read as \<open>undefined\<close>.\<close>

definition putElement :: "jsValue \<Rightarrow> jsValue \<Rightarrow> jsValue \<Rightarrow> sandbox \<Rightarrow> unit completion \<times> sandbox" where
  "putElement b i v s =
     (case (b, i) of
        (VArray p, VNumber k) \<Rightarrow>
          if p < length (heap s) \<and> 0 \<le> k then
            (let xs = heap s ! p;
                 ys = (if nat k < length xs then xs[nat k := v]
                       else xs @ replicate (nat k - length xs) VUndefined @ [v]) in
             (Normal (), s\<lparr>heap := (heap s)[p := ys]\<rparr>))
          else (Unmodelled, s)
      | (c, j) \<Rightarrow> (Unmodelled, s))"

definition traceMethods :: "string list" where
  "traceMethods = [''emit'', ''declare'', ''assign'', ''arrayWrite'', ''getTrace'']"

text \<open>A missing argument of a call is \<open>undefined\<close>.\<close>

definition argument :: "jsValue list \<Rightarrow> nat \<Rightarrow> jsValue" where
  "argument as k = (if k < length as then as ! k else VUndefined)"

definition callTraceMethod :: "string \<Rightarrow> jsValue list \<Rightarrow> sandbox \<Rightarrow> jsValue completion \<times> sandbox" where
  "callTraceMethod m as s =
     (let r =
        (if m = ''declare'' then trace_declare (argument as 0) (argument as 1) s
         else if m = ''assign'' then trace_assign (argument as 0) (argument as 1) s
         else if m = ''arrayWrite'' then
           trace_arrayWrite (argument as 0) (argument as 1) (argument as 2) s
         else (Unmodelled, s)) in
      case r of
        (Normal u, s1) \<Rightarrow> (Normal VUndefined, s1)
      | (c, s1) \<Rightarrow> (abrupt c, s1))"

fun evalExpr :: "string \<Rightarrow> node \<Rightarrow> sandbox \<Rightarrow> jsValue completion \<times> sandbox"
  and evalList :: "string \<Rightarrow> node list \<Rightarrow> sandbox \<Rightarrow> jsValue list completion \<times> sandbox"
  and assignElements ::
    "string \<Rightarrow> node list \<Rightarrow> nat \<Rightarrow> nat \<Rightarrow> sandbox \<Rightarrow> unit completion \<times> sandbox"
where
  "evalExpr src (Num sp) s =
     (case digitsValue (sliceText src sp) of
        None \<Rightarrow> (Unmodelled, s)
      | Some n \<Rightarrow> if safeInteger n then (Normal (VNumber n), s) else (Unmodelled, s))"
| "evalExpr src (Str sp) s =
     (let body = butlast (tl (sliceText src sp)) in
      if CHR 0x5C \<in> set body \<or> CHR 0x0A \<in> set body \<or> CHR 0x0D \<in> set body
      then (Unmodelled, s) else (Normal (VString body), s))"
| "evalExpr src (Ident sp) s = (readIdentifier (sliceText src sp) s, s)"
| "evalExpr src (ArrayLit sp es) s =
     (case evalList src es s of
        (Normal vs, s1) \<Rightarrow> (Normal (VArray (length (heap s1))), s1\<lparr>heap := heap s1 @ [vs]\<rparr>)
      | (c, s1) \<Rightarrow> (abrupt c, s1))"
| "evalExpr src (ElementAccess sp e None) s = (Unmodelled, s)"
| "evalExpr src (ElementAccess sp e (Some a)) s =
     (case evalExpr src e s of
        (Normal b, s1) \<Rightarrow>
          (case evalExpr src a s1 of
             (Normal i, s2) \<Rightarrow> (getElement b i s2, s2)
           | (c, s2) \<Rightarrow> (abrupt c, s2))
      | (c, s1) \<Rightarrow> (abrupt c, s1))"
| "evalExpr src (PropertyAccess sp e nm) s =
     (case evalExpr src e s of
        (Normal b, s1) \<Rightarrow>
          (if b = VTrace \<and> sliceText src nm \<in> set traceMethods
           then (Normal (VMethod (sliceText src nm)), s1)
           else if b = VUndefined \<or> b = VNull
           then (Throw ''TypeError: Cannot read properties of undefined or null'', s1)
           else (Unmodelled, s1))
      | (c, s1) \<Rightarrow> (abrupt c, s1))"
| "evalExpr src (Call sp f as) s =
     (if getKind f = PropertyAccessExpression then
        (case evalExpr src f s of
           (Normal (VMethod m), s1) \<Rightarrow>
             (case evalList src as s1 of
                (Normal vs, s2) \<Rightarrow> callTraceMethod m vs s2
              | (c, s2) \<Rightarrow> (abrupt c, s2))
         | (Normal b, s1) \<Rightarrow> (Unmodelled, s1)
         | (c, s1) \<Rightarrow> (abrupt c, s1))
      else (Unmodelled, s))"
| "evalExpr src (Paren sp e) s = evalExpr src e s"
| "evalExpr src (Binary sp l operator r) s =
     (if operator = PlusToken then
        (case evalExpr src l s of
           (Normal x, s1) \<Rightarrow>
             (case evalExpr src r s1 of
                (Normal y, s2) \<Rightarrow>
                  (case (x, y) of
                     (VNumber m, VNumber n) \<Rightarrow>
                       if safeInteger (m + n) then (Normal (VNumber (m + n)), s2)
                       else (Unmodelled, s2)
                   | (x', y') \<Rightarrow> (Unmodelled, s2))
              | (c, s2) \<Rightarrow> (abrupt c, s2))
         | (c, s1) \<Rightarrow> (abrupt c, s1))
      else if operator = EqualsToken then
        (case l of
           ElementAccess lsp e (Some a) \<Rightarrow>
             (case evalExpr src e s of
                (Normal b, s1) \<Rightarrow>
                  (case evalExpr src a s1 of
                     (Normal i, s2) \<Rightarrow>
                       (case evalExpr src r s2 of
                          (Normal v, s3) \<Rightarrow>
                            (case putElement b i v s3 of
                               (Normal u, s4) \<Rightarrow> (Normal v, s4)
                             | (c, s4) \<Rightarrow> (abrupt c, s4))
                        | (c, s3) \<Rightarrow> (abrupt c, s3))
                   | (c, s2) \<Rightarrow> (abrupt c, s2))
              | (c, s1) \<Rightarrow> (abrupt c, s1))
         | ArrayLit lsp targets \<Rightarrow>
             (case evalExpr src r s of
                (Normal (VArray q), s1) \<Rightarrow>
                  (case assignElements src targets 0 q s1 of
                     (Normal u, s2) \<Rightarrow> (Normal (VArray q), s2)
                   | (c, s2) \<Rightarrow> (abrupt c, s2))
              | (Normal v, s1) \<Rightarrow> (Unmodelled, s1)
              | (c, s1) \<Rightarrow> (abrupt c, s1))
         | other \<Rightarrow> (Unmodelled, s))
      else (Unmodelled, s))"
| "evalList src [] s = (Normal [], s)"
| "evalList src (e # es) s =
     (case evalExpr src e s of
        (Normal v, s1) \<Rightarrow>
          (case evalList src es s1 of
             (Normal vs, s2) \<Rightarrow> (Normal (v # vs), s2)
           | (c, s2) \<Rightarrow> (abrupt c, s2))
      | (c, s1) \<Rightarrow> (abrupt c, s1))"
| "assignElements src [] k q s = (Normal (), s)"
| "assignElements src (t # ts) k q s =
     (case t of
        ElementAccess tsp e (Some a) \<Rightarrow>
          (case evalExpr src e s of
             (Normal b, s1) \<Rightarrow>
               (case evalExpr src a s1 of
                  (Normal i, s2) \<Rightarrow>
                    (if q < length (heap s2) then
                       (case putElement b i (argument (heap s2 ! q) k) s2 of
                          (Normal u, s3) \<Rightarrow> assignElements src ts (Suc k) q s3
                        | (c, s3) \<Rightarrow> (abrupt c, s3))
                     else (Unmodelled, s2))
                | (c, s2) \<Rightarrow> (abrupt c, s2))
           | (c, s1) \<Rightarrow> (abrupt c, s1))
      | other \<Rightarrow> (Unmodelled, s))"

text \<open>
  A declaration binds its name after its initialiser is evaluated; until then reading
  the name throws. Declaring a bound name again is not modelled.
\<close>

fun execDeclarations ::
  "string \<Rightarrow> variableDeclaration list \<Rightarrow> sandbox \<Rightarrow> unit completion \<times> sandbox" where
  "execDeclarations src [] s = (Normal (), s)"
| "execDeclarations src (VarDecl sp nm ini # ds) s =
     (if map_of (bindings s) (sliceText src nm) \<noteq> None then (Unmodelled, s)
      else
        (case (case ini of None \<Rightarrow> (Normal VUndefined, s) | Some e \<Rightarrow> evalExpr src e s) of
           (Normal v, s1) \<Rightarrow>
             execDeclarations src ds
               (s1\<lparr>bindings := (sliceText src nm, v) # bindings s1,
                   uninitialized := removeAll (sliceText src nm) (uninitialized s1)\<rparr>)
         | (c, s1) \<Rightarrow> (abrupt c, s1)))"

text \<open>The condition of an \<open>if\<close> is converted to a boolean.\<close>

fun toBoolean :: "jsValue \<Rightarrow> bool" where
  "toBoolean VUndefined = False"
| "toBoolean VNull = False"
| "toBoolean (VNumber n) = (n \<noteq> 0)"
| "toBoolean (VString t) = (t \<noteq> [])"
| "toBoolean v = True"

fun execStatement :: "string \<Rightarrow> statement \<Rightarrow> sandbox \<Rightarrow> unit completion \<times> sandbox" where
  "execStatement src (VariableStmt sp ds) s = execDeclarations src ds s"
| "execStatement src (ExpressionStmt sp e) s =
     (case evalExpr src e s of
        (Normal v, s1) \<Rightarrow> (Normal (), s1)
      | (c, s1) \<Rightarrow> (abrupt c, s1))"
| "execStatement src (IfStmt sp c body) s =
     (case evalExpr src c s of
        (Normal v, s1) \<Rightarrow> if toBoolean v then execStatement src body s1 else (Normal (), s1)
      | (c', s1) \<Rightarrow> (abrupt c', s1))"

fun execStatements :: "string \<Rightarrow> statement list \<Rightarrow> sandbox \<Rightarrow> unit completion \<times> sandbox" where
  "execStatements src [] s = (Normal (), s)"
| "execStatements src (st # sts) s =
     (case execStatement src st s of
        (Normal u, s1) \<Rightarrow> execStatements src sts s1
      | (c, s1) \<Rightarrow> (c, s1))"

type_synonym vm = "string \<Rightarrow> sandbox \<Rightarrow> unit completion \<times> sandbox"

text \<open>The names the statements of a script declare.\<close>

fun lexicalNames :: "string \<Rightarrow> statement \<Rightarrow> string list" where
  "lexicalNames src (VariableStmt sp ds) = map (getName src) ds"
| "lexicalNames src st = []"

definition runFragment :: vm where
  "runFragment instrumentedCode s =
     (case parseStatements instrumentedCode of
        None \<Rightarrow> (Unmodelled, s)
      | Some (sts, Some err) \<Rightarrow> (Throw (''SyntaxError: '' @ err), s)
      | Some (sts, None) \<Rightarrow>
          execStatements instrumentedCode sts
            (s\<lparr>uninitialized := concat (map (lexicalNames instrumentedCode) sts)\<rparr>))"

section \<open>The executor\<close>

record executionError =
  message :: string
  eventIndex :: nat

record executionResult =
  exSuccess :: bool
  exTrace :: "traceEvent list"
  exDuration :: int
  exError :: "executionError option"

text \<open>
  \<open>CodeExecutor.execute\<close>. The \<open>try\<close> block creates the sandbox, runs the code
  and returns the events of \<open>__trace\<close>; the \<open>catch\<close> block assigns the empty array
  to \<open>partialTrace\<close> and its length to \<open>eventIndex\<close>. The duration is read from
  the clock after the run. The result comes with the store the values of its events
  refer to; a run that ends \<open>Unmodelled\<close> has no result.
\<close>

definition execute :: "vm \<Rightarrow> (nat \<Rightarrow> int) \<Rightarrow> string \<Rightarrow> (executionResult \<times> heap) option" where
  "execute run clk instrumentedCode =
     (let startTime = clk 0;
          sandbox = createSandbox clk 1 in
      case run instrumentedCode sandbox of
        (Normal u, s) \<Rightarrow>
          Some (\<lparr>exSuccess = True, exTrace = trace_getTrace s,
                 exDuration = clk (ticks s) - startTime, exError = None\<rparr>, heap s)
      | (Throw err, s) \<Rightarrow>
          (let partialTrace = [] in
           Some (\<lparr>exSuccess = False, exTrace = partialTrace,
                  exDuration = clk (ticks s) - startTime,
                  exError = Some \<lparr>message = err, eventIndex = length partialTrace\<rparr>\<rparr>,
                 heap s))
      | (Unmodelled, s) \<Rightarrow> None)"

text \<open>
  What a reader of a trace sees of an event in a store: its type and its payload, the
  values followed through the store (as \<open>JSON.stringify\<close> would print them).
\<close>

definition observeData :: "heap \<Rightarrow> (string \<times> jsValue) list \<Rightarrow> (string \<times> json completion) list" where
  "observeData h d = map (\<lambda>(k, v). (k, serializeJSON h [] v)) d"

definition observe :: "heap \<Rightarrow> traceEvent \<Rightarrow> string \<times> (string \<times> json completion) list" where
  "observe h e = (type' e, observeData h (data e))"

section \<open>The pipeline of the command line\<close>

text \<open>
  The handler of \<open>file:changed\<close> in packages/cli: it instruments the content, returns
  after broadcasting the error when that fails, and otherwise executes the instrumented
  code and broadcasts the trace or the error with the partial trace. The model lists
  what the handler does, in order; the call of the runner is one of the actions.
\<close>

datatype action =
    ConsoleLog
  | ConsoleError "string option"
  | BroadcastError string "traceEvent list option"
  | BroadcastTraceStart
  | InvokeRunner string
  | BroadcastTrace "traceEvent list" int

text \<open>\<open>a || b\<close> on strings.\<close>

definition orElse :: "string option \<Rightarrow> string \<Rightarrow> string" where
  "orElse a b = (if truthy a then the a else b)"

definition fileChanged ::
  "parser \<Rightarrow> vm \<Rightarrow> (nat \<Rightarrow> int) \<Rightarrow> string \<Rightarrow> string \<Rightarrow> action list option" where
  "fileChanged parse run clk path content =
     (case instrument parse content \<lparr>filePath = Some path\<rparr> of
        None \<Rightarrow> None
      | Some instrumentResult \<Rightarrow>
          if \<not> success instrumentResult then
            Some [ConsoleLog,
                  ConsoleError (error instrumentResult),
                  BroadcastError (orElse (error instrumentResult) ''Instrumentation failed'') None]
          else
            (case execute run clk (code instrumentResult) of
               None \<Rightarrow> None
             | Some (executionResult, h) \<Rightarrow>
                 if \<not> exSuccess executionResult then
                   Some [ConsoleLog, ConsoleLog, BroadcastTraceStart,
                         InvokeRunner (code instrumentResult),
                         ConsoleError (map_option message (exError executionResult)),
                         BroadcastError
                           (orElse (map_option message (exError executionResult))
                              ''Execution failed'')
                           (Some (exTrace executionResult))]
                 else
                   Some [ConsoleLog, ConsoleLog, BroadcastTraceStart,
                         InvokeRunner (code instrumentResult), ConsoleLog,
                         BroadcastTrace (exTrace executionResult) (exDuration executionResult)]))"

section \<open>Shapes named by the specification\<close>

text \<open>
  The specification describes the swap the transformer recognises as the reciprocal
  two-element shape \<open>[a[i], a[j]] = [a[j], a[i]]\<close>: both sides have exactly two
  elements, all four are indexed accesses into the same named collection, and the
  right-hand side is the left-hand side with the indices exchanged. This predicate
  follows those words; it is compared with \<open>collectArraySwaps\<close>, which follows the code.
\<close>

definition accessName :: "string \<Rightarrow> node \<Rightarrow> string option" where
  "accessName src x = map_option (getText src) (getExpression x)"

definition accessIndex :: "string \<Rightarrow> node \<Rightarrow> string option" where
  "accessIndex src x = map_option (getText src) (getArgumentExpression x)"

definition reciprocalSwapShape :: "string \<Rightarrow> node \<Rightarrow> bool" where
  "reciprocalSwapShape src e =
     (case e of
        Binary sp l operator r \<Rightarrow>
          operator = EqualsToken
          \<and> getKind l = ArrayLiteralExpression \<and> getKind r = ArrayLiteralExpression
          \<and> length (getElements l) = 2 \<and> length (getElements r) = 2
          \<and> list_all (\<lambda>x. getKind x = ElementAccessExpression) (getElements l @ getElements r)
          \<and> list_all (\<lambda>x. accessName src x = accessName src (getElements l ! 0))
                (getElements l @ getElements r)
          \<and> accessIndex src (getElements r ! 0) = accessIndex src (getElements l ! 1)
          \<and> accessIndex src (getElements r ! 1) = accessIndex src (getElements l ! 0)
      | other \<Rightarrow> False)"

text \<open>
  The numbering the specification asks of a trace runtime: the counter is the number of
  events recorded so far, and every recorded event carries its position as its id.
\<close>

definition idsInOrder :: "traceRuntime \<Rightarrow> bool" where
  "idsInOrder t = (eventId t = length (events t) \<and> map id' (events t) = [0..<length (events t)])"



text \<open>
  The constructs the specification says the transformer recognises, read off the syntax
  tree alone, wherever they stand in the text: a variable declaration whose initialiser
  is an array literal, an indexed element assignment, and the two-element swap. These
  definitions follow the specification's words and use nothing of the three
  collectors.
\<close>

fun descendants :: "node \<Rightarrow> node list"
  and descendantsList :: "node list \<Rightarrow> node list" where
  "descendants (Num sp) = [Num sp]"
| "descendants (Str sp) = [Str sp]"
| "descendants (Ident sp) = [Ident sp]"
| "descendants (ArrayLit sp es) = ArrayLit sp es # descendantsList es"
| "descendants (ElementAccess sp e None) = ElementAccess sp e None # descendants e"
| "descendants (ElementAccess sp e (Some a)) =
     ElementAccess sp e (Some a) # descendants e @ descendants a"
| "descendants (PropertyAccess sp e nm) = PropertyAccess sp e nm # descendants e"
| "descendants (Call sp f as) = Call sp f as # descendants f @ descendantsList as"
| "descendants (Paren sp e) = Paren sp e # descendants e"
| "descendants (Binary sp l operator r) =
     Binary sp l operator r # descendants l @ descendants r"
| "descendantsList [] = []"
| "descendantsList (e # es) = descendants e @ descendantsList es"

fun declarationsOf :: "statement \<Rightarrow> variableDeclaration list" where
  "declarationsOf (VariableStmt sp ds) = ds"
| "declarationsOf (ExpressionStmt sp e) = []"
| "declarationsOf (IfStmt sp c body) = declarationsOf body"

fun expressionsOf :: "statement \<Rightarrow> node list" where
  "expressionsOf (VariableStmt sp ds) =
     concat (map (\<lambda>d. case getInitializer d of None \<Rightarrow> [] | Some e \<Rightarrow> descendants e) ds)"
| "expressionsOf (ExpressionStmt sp e) = descendants e"
| "expressionsOf (IfStmt sp c body) = descendants c @ expressionsOf body"

definition arrayLiteralDeclaration :: "variableDeclaration \<Rightarrow> bool" where
  "arrayLiteralDeclaration d =
     (case getInitializer d of
        None \<Rightarrow> False
      | Some e \<Rightarrow> getKind e = ArrayLiteralExpression)"

definition indexedAssignment :: "node \<Rightarrow> bool" where
  "indexedAssignment e =
     (case e of
        Binary sp l operator r \<Rightarrow>
          operator = EqualsToken \<and> getKind l = ElementAccessExpression
      | other \<Rightarrow> False)"

text \<open>
  A source text contains a construct the specification names: an array-literal
  declaration, a swap of the reciprocal shape, or an indexed assignment.
\<close>

definition containsNamedConstruct :: "parser \<Rightarrow> string \<Rightarrow> instrumentOptions \<Rightarrow> bool" where
  "containsNamedConstruct parse sourceCode options =
     (case parse (sourcePath options) sourceCode of
        Parsed sts \<Rightarrow>
          list_ex arrayLiteralDeclaration (concat (map declarationsOf sts))
          \<or> list_ex (reciprocalSwapShape sourceCode) (concat (map expressionsOf sts))
          \<or> list_ex indexedAssignment (concat (map expressionsOf sts))
      | other \<Rightarrow> False)"

text \<open>
  The same with the swap read more widely: an assignment between two array literals of
  two elements each whose two left-hand elements are indexed accesses, whatever stands
  on the right.
\<close>

definition pairAssignment :: "node \<Rightarrow> bool" where
  "pairAssignment e =
     (case e of
        Binary sp l operator r \<Rightarrow>
          operator = EqualsToken
          \<and> getKind l = ArrayLiteralExpression \<and> getKind r = ArrayLiteralExpression
          \<and> length (getElements l) = 2 \<and> length (getElements r) = 2
          \<and> list_all (\<lambda>x. getKind x = ElementAccessExpression) (getElements l)
      | other \<Rightarrow> False)"

definition containsConstruct :: "parser \<Rightarrow> string \<Rightarrow> instrumentOptions \<Rightarrow> bool" where
  "containsConstruct parse sourceCode options =
     (case parse (sourcePath options) sourceCode of
        Parsed sts \<Rightarrow>
          list_ex arrayLiteralDeclaration (concat (map declarationsOf sts))
          \<or> list_ex pairAssignment (concat (map expressionsOf sts))
          \<or> list_ex indexedAssignment (concat (map expressionsOf sts))
      | other \<Rightarrow> False)"

text \<open>
  A text has invalid syntax when the parser of the fragment reports a syntax error for
  it.
\<close>

definition invalidSyntax :: "string \<Rightarrow> bool" where
  "invalidSyntax src =
     (case parseStatements src of
        Some (sts, Some err) \<Rightarrow> True
      | other \<Rightarrow> False)"

section \<open>Results\<close>

subsection \<open>The outcome of \<open>instrument\<close>\<close>




text \<open>
  The two ways \<open>instrument\<close> fails: the parser throws, or a replacement throws after
  the text was parsed.
\<close>

lemma instrument_fails_iff:
  "instrument parse sourceCode options = Some r \<Longrightarrow>
   \<not> success r \<longleftrightarrow>
     (\<exists>err. parse (sourcePath options) sourceCode = ParseError err)
     \<or> (\<exists>sts err. parse (sourcePath options) sourceCode = Parsed sts
           \<and> transformSourceFile \<lparr>fullText = sourceCode, statements = sts\<rparr> = Inl err)"
  by (auto simp: instrument_def CodeInstrumenter_instrument_def
        split: parseOutcome.splits sum.splits)

text \<open>
  An assignment to an element that is the body of an \<open>if\<close>: the text is parsed, the
  assignment is collected, and replacing the embedded statement throws.
\<close>

lemma embedded_assignment_parses:
  "fragmentParser ''temp.ts'' ''const a=[1]; if (a) a[0] = 2;'' =
     Parsed
       [VariableStmt (0, 12) [VarDecl (6, 11) (6, 7) (Some (ArrayLit (8, 11) [Num (9, 10)]))],
        IfStmt (13, 29) (Ident (17, 18))
          (ExpressionStmt (20, 29)
            (Binary (20, 28)
              (ElementAccess (20, 24) (Ident (20, 21)) (Some (Num (22, 23))))
              EqualsToken (Num (27, 28))))]"
  by code_simp

lemma embedded_assignment_fails:
  "instrument fragmentParser ''const a=[1]; if (a) a[0] = 2;'' \<lparr>filePath = None\<rparr>
     = Some \<lparr>code = ''const a=[1]; if (a) a[0] = 2;'', success = False,
             error = Some manipulationError\<rparr>"
  by code_simp

text \<open>
  C10. Whenever \<open>instrument\<close> fails, whether the parser threw or a replacement did,
  its result still has a \<open>code\<close> field, and that field is the source text it was
  given, unchanged.
\<close>

theorem failed_instrument_returns_source:
  "instrument parse sourceCode options = Some r \<Longrightarrow> \<not> success r \<Longrightarrow> code r = sourceCode"
  by (auto simp: instrument_def CodeInstrumenter_instrument_def
        split: parseOutcome.splits sum.splits)

theorem failed_instrument_returns_source_witness:
  "map_option success
     (instrument fragmentParser ''const a=[1]; if (a) a[0] = 2;'' \<lparr>filePath = None\<rparr>)
     = Some False
   \<and> map_option code
       (instrument fragmentParser ''const a=[1]; if (a) a[0] = 2;'' \<lparr>filePath = None\<rparr>)
     = Some ''const a=[1]; if (a) a[0] = 2;''"
proof -
  obtain r where r: "instrument fragmentParser ''const a=[1]; if (a) a[0] = 2;''
                       \<lparr>filePath = None\<rparr> = Some r"
    and f: "\<not> success r"
    using embedded_assignment_fails by simp
  from failed_instrument_returns_source [OF r f] r f show ?thesis by simp
qed

subsection \<open>Indexed writes\<close>

lemma instrumented_indexed_write:
  "instrument fragmentParser ''const a=[1,2,3]; a[1] = a[1] + 5;'' \<lparr>filePath = None\<rparr> =
     Some \<lparr>code =
       ''const a=[1,2,3];\<newline>__trace.declare('' @ [quote] @ ''a'' @ [quote]
       @ '', a); a[1] = a[1] + 5;\<newline>__trace.arrayWrite('' @ [quote] @ ''a'' @ [quote]
       @ '', 1, a[1] + 5);'', success = True, error = None\<rparr>"
  by code_simp

text \<open>
  C1. For the source \<open>const a=[1,2,3]; a[1] = a[1] + 5;\<close> the run succeeds and its
  trace has exactly one \<open>array:write\<close> event, for index 1. The assignment stores 7
  (the array ends as \<open>[1, 7, 3]\<close>), but the event carries 12: the inserted call
  evaluates the text \<open>a[1] + 5\<close> again, after the assignment.
\<close>

theorem indexed_write_event_reevaluates_value:
  "map_option
     (\<lambda>(r, h). (exSuccess r, [data e. e \<leftarrow> exTrace r, type' e = ''array:write''], h ! 0))
     (Option.bind (instrument fragmentParser ''const a=[1,2,3]; a[1] = a[1] + 5;'' \<lparr>filePath = None\<rparr>)
        (\<lambda>i. execute runFragment clk (code i)))
   = Some (True,
           [[(''name'', VString ''a''), (''index'', VNumber 1), (''value'', VNumber 12)]],
           [VNumber 1, VNumber 7, VNumber 3])"
  by code_simp

subsection \<open>Faulting runs\<close>

lemma execute_fault:
  "run instrumentedCode (createSandbox clk 1) = (Throw err, s) \<Longrightarrow>
   map_option fst (execute run clk instrumentedCode) =
     Some \<lparr>exSuccess = False, exTrace = [], exDuration = clk (ticks s) - clk 0,
           exError = Some \<lparr>message = err, eventIndex = 0\<rparr>\<rparr>"
  by (simp add: execute_def)

text \<open>
  C2. The instrumented code of \<open>const a=[1]; b[0] = 1;\<close> emits one event and then
  throws a \<open>ReferenceError\<close>. The sandbox has accumulated that event, but the result
  of \<open>execute\<close> has the empty trace and \<open>eventIndex\<close> 0: the events emitted before
  the fault are lost.
\<close>

theorem execute_drops_partial_trace:
  "map_option
     (\<lambda>i. case runFragment (code i) (createSandbox clk 1) of
            (c, s) \<Rightarrow> (c, map type' (events (traceObject s))))
     (instrument fragmentParser ''const a=[1]; b[0] = 1;'' \<lparr>filePath = None\<rparr>)
     = Some (Throw ''ReferenceError: b is not defined'', [''variable:declare''])
   \<and> map_option (\<lambda>(r, h). (exSuccess r, exTrace r, map_option eventIndex (exError r)))
        (Option.bind (instrument fragmentParser ''const a=[1]; b[0] = 1;'' \<lparr>filePath = None\<rparr>)
        (\<lambda>i. execute runFragment clk (code i)))
     = Some (False, [], Some 0)"
  by code_simp

text \<open>
  Reading a name above its declaration throws with the message of the temporal dead
  zone; a literal with a leading zero is left to the engine.
\<close>

lemma read_before_declaration:
  "fst (runFragment ''a[0] = 1; const a=[0];'' (createSandbox clk 1))
     = Throw (''ReferenceError: Cannot access '' @ [quote] @ ''a'' @ [quote]
              @ '' before initialization'')"
  by code_simp

lemma leading_zero_is_not_decimal:
  "fst (runFragment ''const a=[010];'' (createSandbox clk 1)) = Unmodelled"
  by code_simp

subsection \<open>Clone isolation\<close>

lemma declare_event_is_a_snapshot:
  "(case trace_declare (VString ''r'') (VArray 0) ((createSandbox clk 1)\<lparr>heap := [[VNumber 1]]\<rparr>) of
      (c, s1) \<Rightarrow>
        (case putElement (VArray 0) (VNumber 0) (VNumber 9) s1 of
           (c', s2) \<Rightarrow>
             (map (observe (heap s1)) (events (traceObject s1)),
              map (observe (heap s2)) (events (traceObject s2)))))
   = ([(''variable:declare'',
        [(''name'', Normal (JString ''r'')), (''value'', Normal (JArray [JNumber 1]))])],
      [(''variable:declare'',
        [(''name'', Normal (JString ''r'')), (''value'', Normal (JArray [JNumber 1]))])])"
  by code_simp

lemma instrumented_run_shows_live_reference:
  "map_option (\<lambda>(r, h). observe h (exTrace r ! 2))
     (Option.bind (instrument fragmentParser ''const r=[1]; const m=[[0]]; m[0] = r;'' \<lparr>filePath = None\<rparr>)
        (\<lambda>i. execute runFragment clk (code i)))
   = Some (''array:write'',
           [(''name'', Normal (JString ''m'')), (''index'', Normal (JNumber 0)),
            (''value'', Normal (JArray [JNumber 1]))])
   \<and> map_option (\<lambda>(r, h). observe h (exTrace r ! 2))
     (Option.bind (instrument fragmentParser ''const r=[1]; const m=[[0]]; m[0] = r; r[0] = 9;'' \<lparr>filePath = None\<rparr>)
        (\<lambda>i. execute runFragment clk (code i)))
   = Some (''array:write'',
           [(''name'', Normal (JString ''m'')), (''index'', Normal (JNumber 0)),
            (''value'', Normal (JArray [JNumber 9]))])"
  by code_simp

text \<open>
  C3. \<open>arrayWrite\<close> records the value it is given without cloning it. Called with a
  reference to the array \<open>[1]\<close>, it records an event whose value reads \<open>[1]\<close>; after
  the original array is changed in place to \<open>[9]\<close>, the same recorded event reads
  \<open>[9]\<close> (\<open>declare\<close> and \<open>assign\<close> clone, see \<open>declare_event_is_a_snapshot\<close>).
\<close>

theorem arrayWrite_event_follows_later_mutation:
  "(case trace_arrayWrite (VString ''m'') (VNumber 0) (VArray 0)
           ((createSandbox clk 1)\<lparr>heap := [[VNumber 1]]\<rparr>) of
      (c, s1) \<Rightarrow>
        (case putElement (VArray 0) (VNumber 0) (VNumber 9) s1 of
           (c', s2) \<Rightarrow>
             (map (observe (heap s1)) (events (traceObject s1)),
              map (observe (heap s2)) (events (traceObject s2)))))
   = ([(''array:write'',
        [(''name'', Normal (JString ''m'')), (''index'', Normal (JNumber 0)),
         (''value'', Normal (JArray [JNumber 1]))])],
      [(''array:write'',
        [(''name'', Normal (JString ''m'')), (''index'', Normal (JNumber 0)),
         (''value'', Normal (JArray [JNumber 9]))])])"
  by code_simp

subsection \<open>Swaps\<close>

text \<open>
  C5. For the source \<open>const a=[2,1]; [a[0],a[1]]=[a[1],a[0]];\<close> the run succeeds and
  its trace is, in order: \<open>variable:declare\<close> of \<open>a\<close> with value \<open>[2,1]\<close>,
  \<open>array:write\<close> of index 0 with value 1, \<open>array:write\<close> of index 1 with value 2,
  \<open>variable:assign\<close> of \<open>a\<close> with value \<open>[1,2]\<close>.
\<close>

theorem swap_trace:
  "map_option (\<lambda>(r, h). (exSuccess r, map (observe h) (exTrace r)))
     (Option.bind (instrument fragmentParser ''const a=[2,1]; [a[0],a[1]]=[a[1],a[0]];'' \<lparr>filePath = None\<rparr>)
        (\<lambda>i. execute runFragment clk (code i)))
   = Some (True,
       [(''variable:declare'',
         [(''name'', Normal (JString ''a'')), (''value'', Normal (JArray [JNumber 2, JNumber 1]))]),
        (''array:write'',
         [(''name'', Normal (JString ''a'')), (''index'', Normal (JNumber 0)),
          (''value'', Normal (JNumber 1))]),
        (''array:write'',
         [(''name'', Normal (JString ''a'')), (''index'', Normal (JNumber 1)),
          (''value'', Normal (JNumber 2))]),
        (''variable:assign'',
         [(''name'', Normal (JString ''a'')), (''value'', Normal (JArray [JNumber 1, JNumber 2]))])])"
  by code_simp

subsection \<open>Transform failures in the pipeline\<close>

text \<open>
  A text with a syntax error does not make the transformer fail. For \<open>const = ;\<close>
  the parser reports the error and still returns a tree, a variable statement without
  declarations; the instrumenter never reads the diagnostics, finds nothing to
  instrument and returns the text with \<open>success\<close> true; the handler goes on and
  invokes the runner, where the engine refuses the script.
\<close>

lemma invalid_text_is_parsed:
  "parseStatements ''const = ;'' = Some ([VariableStmt (0, 9) []], Some (unexpectedToken ''=''))"
  by code_simp

lemma invalid_text_in_the_pipeline:
  "fileChanged fragmentParser runFragment clk ''algo.ts'' ''const = ;'' =
     Some [ConsoleLog, ConsoleLog, BroadcastTraceStart, InvokeRunner ''const = ;'',
           ConsoleError (Some (''SyntaxError: '' @ unexpectedToken ''='')),
           BroadcastError (''SyntaxError: '' @ unexpectedToken ''='') (Some [])]"
  by code_simp

text \<open>
  The claim as the specification words it fails on \<open>const = ;\<close>: the text has
  invalid syntax, the transformer returns \<open>success\<close> true, and the handler invokes
  the runner on it.
\<close>

theorem invalid_syntax_reaches_runner:
  "invalidSyntax ''const = ;''
   \<and> instrument fragmentParser ''const = ;'' \<lparr>filePath = Some ''algo.ts''\<rparr>
       = Some \<lparr>code = ''const = ;'', success = True, error = None\<rparr>
   \<and> InvokeRunner ''const = ;''
       \<in> set (the (fileChanged fragmentParser runFragment stoppedClock ''algo.ts'' ''const = ;''))"
  by code_simp

text \<open>
  C8 (as amended). When the transformer returns a failure (\<open>success\<close> false, with an
  error), the handler of the pipeline only reports it: it broadcasts the error without
  a trace and never invokes the runner, whatever the runner is.
\<close>

theorem transform_failure_never_runs:
  "instrument parse content \<lparr>filePath = Some path\<rparr> = Some r \<Longrightarrow> \<not> success r \<Longrightarrow>
   error r \<noteq> None
   \<and> fileChanged parse run clk path content
     = Some [ConsoleLog, ConsoleError (error r),
             BroadcastError (orElse (error r) ''Instrumentation failed'') None]
   \<and> list_all (\<lambda>a. case a of InvokeRunner c \<Rightarrow> False | BroadcastTrace es d \<Rightarrow> False
                        | BroadcastError m (Some es) \<Rightarrow> False | other \<Rightarrow> True)
        (the (fileChanged parse run clk path content))"
proof -
  assume r: "instrument parse content \<lparr>filePath = Some path\<rparr> = Some r" and f: "\<not> success r"
  from r f have "error r \<noteq> None"
    by (auto simp: instrument_def CodeInstrumenter_instrument_def
          split: parseOutcome.splits sum.splits)
  with r f show ?thesis by (simp add: fileChanged_def)
qed

lemma embedded_assignment_fails_in_file:
  "instrument fragmentParser ''const a=[1]; if (a) a[0] = 2;'' \<lparr>filePath = Some ''algo.ts''\<rparr>
     = Some \<lparr>code = ''const a=[1]; if (a) a[0] = 2;'', success = False,
             error = Some manipulationError\<rparr>"
  by code_simp

theorem transform_failure_never_runs_witness:
  "instrument fragmentParser ''const a=[1]; if (a) a[0] = 2;'' \<lparr>filePath = Some ''algo.ts''\<rparr>
     = Some \<lparr>code = ''const a=[1]; if (a) a[0] = 2;'', success = False,
             error = Some manipulationError\<rparr>
   \<and> fileChanged fragmentParser runFragment stoppedClock ''algo.ts''
         ''const a=[1]; if (a) a[0] = 2;''
     = Some [ConsoleLog, ConsoleError (Some manipulationError),
             BroadcastError manipulationError None]"
  using transform_failure_never_runs [OF embedded_assignment_fails_in_file,
          where run = runFragment and clk = stoppedClock]
    embedded_assignment_fails_in_file
  by (simp add: orElse_def manipulationError_def)

subsection \<open>Event ids\<close>

lemma emit_ids:
  "idsInOrder (traceObject s) \<Longrightarrow> idsInOrder (traceObject (trace_emit ty d s))"
  by (simp add: idsInOrder_def trace_emit_def Date_now_def)

lemma jsonClone_trace:
  "jsonClone v s = (c, s') \<Longrightarrow> traceObject s' = traceObject s"
  by (auto simp: jsonClone_def split: if_splits completion.splits prod.splits)

lemma putElement_trace:
  "putElement b i v s = (c, s') \<Longrightarrow> traceObject s' = traceObject s"
  by (auto simp: putElement_def Let_def split: if_splits jsValue.splits)

lemma callTraceMethod_ids:
  "callTraceMethod m as s = (c, s') \<Longrightarrow> idsInOrder (traceObject s) \<Longrightarrow> idsInOrder (traceObject s')"
  by (auto simp: callTraceMethod_def trace_declare_def trace_assign_def trace_arrayWrite_def Let_def
       intro!: emit_ids dest!: jsonClone_trace split: if_splits completion.splits prod.splits)

lemma eval_ids:
  "evalExpr src e s = (c, s') \<Longrightarrow> idsInOrder (traceObject s) \<Longrightarrow> idsInOrder (traceObject s')"
  "evalList src es s = (cs, s') \<Longrightarrow> idsInOrder (traceObject s) \<Longrightarrow> idsInOrder (traceObject s')"
  "assignElements src ts k q s = (cu, s') \<Longrightarrow> idsInOrder (traceObject s) \<Longrightarrow> idsInOrder (traceObject s')"
proof (induction src e s and src es s and src ts k q s arbitrary: c s' and cs s' and cu s'
        rule: evalExpr_evalList_assignElements.induct)
  case (1 src sp s)
  then show ?case by (auto split: if_splits option.splits)
next
  case (2 src sp s)
  then show ?case by (auto simp: Let_def split: if_splits)
next
  case (3 src sp s)
  then show ?case by auto
next
  case (4 src sp es s)
  then show ?case by (auto split: prod.splits completion.splits)
next
  case (5 src sp e s)
  then show ?case by auto
next
  case (6 src sp e a s)
  then show ?case by (fastforce split: prod.splits completion.splits)
next
  case (7 src sp e nm s)
  then show ?case by (fastforce split: prod.splits completion.splits if_splits)
next
  case (8 src sp f as s)
  then show ?case
    by (fastforce dest: callTraceMethod_ids split: prod.splits completion.splits if_splits jsValue.splits)
next
  case (9 src sp e s)
  then show ?case by auto
next
  case (10 src sp l operator r s)
  note ev = "10.prems"(1) and inv = "10.prems"(2)
  show ?case
  proof (cases "operator = PlusToken")
    case True
    obtain c1 s1 where e1: "evalExpr src l s = (c1, s1)" by (cases "evalExpr src l s")
    have i1: "idsInOrder (traceObject s1)" using "10.IH"(1) [OF True e1 inv] .
    show ?thesis
    proof (cases c1)
      case (Normal x)
      obtain c2 s2 where e2: "evalExpr src r s1 = (c2, s2)" by (cases "evalExpr src r s1")
      have i2: "idsInOrder (traceObject s2)"
        using "10.IH"(2) [OF True e1 [symmetric] Normal e2 i1] .
      from ev True e1 Normal e2 have "s' = s2"
        by (simp split: completion.splits jsValue.splits if_splits)
      with i2 show ?thesis by simp
    qed (use ev True e1 i1 in auto)
  next
    case False
    note notPlus = this
    show ?thesis
    proof (cases "operator = EqualsToken")
      case False
      with notPlus ev inv show ?thesis by simp
    next
      case True
      show ?thesis
      proof (cases l)
        case (ElementAccess lsp e ao)
        show ?thesis
        proof (cases ao)
          case None
          with ElementAccess True notPlus ev inv show ?thesis by simp
        next
          case (Some a)
          obtain c1 s1 where e1: "evalExpr src e s = (c1, s1)" by (cases "evalExpr src e s")
          have i1: "idsInOrder (traceObject s1)"
            using "10.IH"(5) [OF notPlus True ElementAccess Some e1 inv] .
          show ?thesis
          proof (cases c1)
            case (Normal b)
            note n1 = this
            obtain c2 s2 where e2: "evalExpr src a s1 = (c2, s2)" by (cases "evalExpr src a s1")
            have i2: "idsInOrder (traceObject s2)"
              using "10.IH"(6) [OF notPlus True ElementAccess Some e1 [symmetric] n1 e2 i1] .
            show ?thesis
            proof (cases c2)
              case (Normal i)
              note n2 = this
              obtain c3 s3 where e3: "evalExpr src r s2 = (c3, s3)" by (cases "evalExpr src r s2")
              have i3: "idsInOrder (traceObject s3)"
                using "10.IH"(7) [OF notPlus True ElementAccess Some e1 [symmetric] n1
                                   e2 [symmetric] n2 e3 i2] .
              show ?thesis
              proof (cases c3)
                case (Normal v)
                obtain c4 s4 where e4: "putElement b i v s3 = (c4, s4)"
                  by (cases "putElement b i v s3")
                from putElement_trace [OF e4] i3 have i4: "idsInOrder (traceObject s4)" by simp
                from ev notPlus True ElementAccess Some e1 n1 e2 n2 e3 Normal e4 have "s' = s4"
                  by (simp split: completion.splits)
                with i4 show ?thesis by simp
              qed (use ev notPlus True ElementAccess Some e1 n1 e2 n2 e3 i3 in auto)
            qed (use ev notPlus True ElementAccess Some e1 n1 e2 i2 in auto)
          qed (use ev notPlus True ElementAccess Some e1 i1 in auto)
        qed
      next
        case (ArrayLit lsp targets)
        obtain c1 s1 where e1: "evalExpr src r s = (c1, s1)" by (cases "evalExpr src r s")
        have i1: "idsInOrder (traceObject s1)"
          using "10.IH"(3) [OF notPlus True ArrayLit e1 inv] .
        show ?thesis
        proof (cases c1)
          case (Normal v)
          note n1 = this
          show ?thesis
          proof (cases v)
            case (VArray q)
            obtain c2 s2 where e2: "assignElements src targets 0 q s1 = (c2, s2)"
              by (cases "assignElements src targets 0 q s1")
            have i2: "idsInOrder (traceObject s2)"
              using "10.IH"(4) [OF notPlus True ArrayLit e1 [symmetric] n1 VArray e2 i1] .
            from ev notPlus True ArrayLit e1 n1 VArray e2 have "s' = s2"
              by (simp split: completion.splits)
            with i2 show ?thesis by simp
          qed (use ev notPlus True ArrayLit e1 n1 i1 in auto)
        qed (use ev notPlus True ArrayLit e1 i1 in auto)
      qed (use ev notPlus True inv in auto)
    qed
  qed
next
  case (11 src s)
  then show ?case by auto
next
  case (12 src e es s)
  then show ?case by (fastforce split: prod.splits completion.splits)
next
  case (13 src k q s)
  then show ?case by auto
next
  case (14 src t ts k q s)
  note ev = "14.prems"(1) and inv = "14.prems"(2)
  show ?case
  proof (cases t)
    case (ElementAccess tsp e ao)
    show ?thesis
    proof (cases ao)
      case None
      with ElementAccess ev inv show ?thesis by simp
    next
      case (Some a)
      obtain c1 s1 where e1: "evalExpr src e s = (c1, s1)" by (cases "evalExpr src e s")
      have i1: "idsInOrder (traceObject s1)"
        using "14.IH"(1) [OF ElementAccess Some e1 inv] .
      show ?thesis
      proof (cases c1)
        case (Normal b)
        note n1 = this
        obtain c2 s2 where e2: "evalExpr src a s1 = (c2, s2)" by (cases "evalExpr src a s1")
        have i2: "idsInOrder (traceObject s2)"
          using "14.IH"(2) [OF ElementAccess Some e1 [symmetric] n1 e2 i1] .
        show ?thesis
        proof (cases c2)
          case (Normal i)
          note n2 = this
          show ?thesis
          proof (cases "q < length (heap s2)")
            case True
            obtain c3 s3 where e3: "putElement b i (argument (heap s2 ! q) k) s2 = (c3, s3)"
              by (cases "putElement b i (argument (heap s2 ! q) k) s2")
            from putElement_trace [OF e3] i2 have i3: "idsInOrder (traceObject s3)" by simp
            show ?thesis
            proof (cases c3)
              case (Normal u)
              from ev ElementAccess Some e1 n1 e2 n2 True e3 Normal
              have e4: "assignElements src ts (Suc k) q s3 = (cu, s')" by simp
              show ?thesis
                using "14.IH"(3) [OF ElementAccess Some e1 [symmetric] n1 e2 [symmetric] n2 True
                                   e3 [symmetric] Normal e4 i3] .
            qed (use ev ElementAccess Some e1 n1 e2 n2 True e3 i3 in auto)
          qed (use ev ElementAccess Some e1 n1 e2 n2 i2 in auto)
        qed (use ev ElementAccess Some e1 n1 e2 i2 in auto)
      qed (use ev ElementAccess Some e1 i1 in auto)
    qed
  qed (use ev inv in auto)
qed


lemma execDeclarations_ids:
  "execDeclarations src ds s = (c, s') \<Longrightarrow> idsInOrder (traceObject s) \<Longrightarrow>
   idsInOrder (traceObject s')"
proof (induction src ds s rule: execDeclarations.induct)
  case (1 src s)
  then show ?case by simp
next
  case (2 src sp nm ini ds s)
  show ?case
  proof (cases "map_of (bindings s) (sliceText src nm) \<noteq> None")
    case True
    with 2 show ?thesis by simp
  next
    case False
    obtain c1 s1 where e1:
      "(case ini of None \<Rightarrow> (Normal VUndefined, s) | Some e \<Rightarrow> evalExpr src e s) = (c1, s1)"
      by (cases "case ini of None \<Rightarrow> (Normal VUndefined, s) | Some e \<Rightarrow> evalExpr src e s")
    have i1: "idsInOrder (traceObject s1)"
      using e1 "2.prems"(2) by (auto split: option.splits dest: eval_ids(1))
    show ?thesis
    proof (cases c1)
      case (Normal v)
      from "2.prems"(1) False e1 Normal
      have "execDeclarations src ds
              (s1\<lparr>bindings := (sliceText src nm, v) # bindings s1,
                  uninitialized := removeAll (sliceText src nm) (uninitialized s1)\<rparr>) = (c, s')"
        by simp
      from "2.IH" [OF False e1 [symmetric] Normal this] i1 show ?thesis by simp
    qed (use "2.prems"(1) False e1 i1 in auto)
  qed
qed

lemma execStatement_ids:
  "execStatement src st s = (c, s') \<Longrightarrow> idsInOrder (traceObject s) \<Longrightarrow>
   idsInOrder (traceObject s')"
proof (induction src st s arbitrary: c s' rule: execStatement.induct)
  case (1 src sp ds s)
  then show ?case by (auto dest: execDeclarations_ids)
next
  case (2 src sp e s)
  then show ?case by (auto dest: eval_ids(1) split: prod.splits completion.splits)
next
  case (3 src sp cond body s)
  obtain c1 s1 where e1: "evalExpr src cond s = (c1, s1)" by (cases "evalExpr src cond s")
  from eval_ids(1) [OF e1 "3.prems"(2)] have i1: "idsInOrder (traceObject s1)" .
  show ?case
  proof (cases c1)
    case (Normal v)
    show ?thesis
    proof (cases "toBoolean v")
      case True
      with "3.prems"(1) e1 Normal have "execStatement src body s1 = (c, s')" by simp
      from "3.IH" [OF e1 [symmetric] Normal True this i1] show ?thesis .
    next
      case False
      with "3.prems"(1) e1 Normal i1 show ?thesis by simp
    qed
  qed (use "3.prems"(1) e1 i1 in auto)
qed

lemma execStatements_ids:
  "execStatements src sts s = (c, s') \<Longrightarrow> idsInOrder (traceObject s) \<Longrightarrow>
   idsInOrder (traceObject s')"
proof (induction sts arbitrary: s)
  case Nil
  then show ?case by simp
next
  case (Cons st sts)
  obtain c1 s1 where e1: "execStatement src st s = (c1, s1)" by (cases "execStatement src st s")
  from execStatement_ids [OF e1 Cons.prems(2)] have i1: "idsInOrder (traceObject s1)" .
  show ?case
  proof (cases c1)
    case (Normal u)
    with Cons.prems(1) e1 have "execStatements src sts s1 = (c, s')" by simp
    from Cons.IH [OF this i1] show ?thesis .
  qed (use Cons.prems(1) e1 i1 in auto)
qed

lemma createSandbox_ids: "idsInOrder (traceObject (createSandbox clk k))"
  by (simp add: createSandbox_def idsInOrder_def)

lemma runFragment_ids:
  "runFragment instrumentedCode (createSandbox clk k) = (c, s) \<Longrightarrow> idsInOrder (traceObject s)"
proof -
  assume run: "runFragment instrumentedCode (createSandbox clk k) = (c, s)"
  have start: "idsInOrder (traceObject ((createSandbox clk k)\<lparr>uninitialized := ns\<rparr>))" for ns
    using createSandbox_ids [of clk k] by simp
  from run show ?thesis
    by (auto simp: runFragment_def createSandbox_ids split: option.splits
          dest: execStatements_ids [OF _ start])
qed

text \<open>
  C6. In every trace a run returns, the id of an event is its position:
  \<open>events[i].id = i\<close> for every valid index. The ids are given by \<open>emit\<close>,
  starting at 0 and increasing by one per event (\<open>emit_ids\<close>, \<open>createSandbox_ids\<close>);
  the evaluator reaches the trace only through the methods of \<open>__trace\<close>.
\<close>

theorem trace_ids_are_positions:
  "execute runFragment clk instrumentedCode = Some (r, h) \<Longrightarrow> i < length (exTrace r) \<Longrightarrow>
   id' (exTrace r ! i) = i"
proof -
  assume ex: "execute runFragment clk instrumentedCode = Some (r, h)" and i: "i < length (exTrace r)"
  obtain c s where run: "runFragment instrumentedCode (createSandbox clk 1) = (c, s)"
    by (cases "runFragment instrumentedCode (createSandbox clk 1)")
  from runFragment_ids [OF run] have "map id' (events (traceObject s)) = [0..<length (events (traceObject s))]"
    by (simp add: idsInOrder_def)
  moreover from ex run i have "exTrace r = events (traceObject s)"
    by (cases c) (auto simp: execute_def trace_getTrace_def Let_def)
  ultimately have "map id' (exTrace r) ! i = [0..<length (exTrace r)] ! i" by simp
  with i show ?thesis by simp
qed

lemma swap_run_length:
  "map_option (\<lambda>(r, h). length (exTrace r))
     (Option.bind (instrument fragmentParser ''const a=[2,1]; [a[0],a[1]]=[a[1],a[0]];'' \<lparr>filePath = None\<rparr>)
        (\<lambda>i. execute runFragment (\<lambda>k. 0) (code i))) = Some 4"
  by code_simp

theorem trace_ids_are_positions_witness:
  "\<exists>i r h. instrument fragmentParser ''const a=[2,1]; [a[0],a[1]]=[a[1],a[0]];''
                \<lparr>filePath = None\<rparr> = Some i
         \<and> execute runFragment (\<lambda>k. 0) (code i) = Some (r, h)
         \<and> 3 < length (exTrace r) \<and> id' (exTrace r ! 3) = 3"
proof -
  from swap_run_length obtain i r h where
    ins: "instrument fragmentParser ''const a=[2,1]; [a[0],a[1]]=[a[1],a[0]];''
                \<lparr>filePath = None\<rparr> = Some i"
    and ex: "execute runFragment (\<lambda>k. 0) (code i) = Some (r, h)"
    and len: "length (exTrace r) = 4"
    by (auto simp: map_option_case bind_eq_Some_conv split: option.splits)
  from len have i: "3 < length (exTrace r)" by simp
  from trace_ids_are_positions [OF ex i] ins ex i show ?thesis by blast
qed

subsection \<open>Which assignments are instrumented as swaps\<close>

lemma arrayLiteral_two_elements:
  "getKind n = ArrayLiteralExpression \<Longrightarrow> length (getElements n) = 2 \<Longrightarrow>
   \<exists>sp x y. n = ArrayLit sp [x, y]"
proof (cases n)
  case (ArrayLit sp es)
  assume "length (getElements n) = 2"
  with ArrayLit obtain x y where "es = [x, y]"
    by (cases es; cases "tl es") auto
  with ArrayLit show ?thesis by blast
qed auto

lemma swapTransformation_empty:
  "\<not> (operator = EqualsToken
       \<and> getKind l = ArrayLiteralExpression \<and> getKind r = ArrayLiteralExpression
       \<and> length (getElements l) = 2 \<and> length (getElements r) = 2
       \<and> anc \<noteq> None
       \<and> getKind (getElements l ! 0) = ElementAccessExpression
       \<and> getKind (getElements l ! 1) = ElementAccessExpression) \<Longrightarrow>
   swapTransformation src (Binary sp l operator r, anc) = []"
  by (auto simp: swapTransformation_def Let_def split: option.splits)

lemma swapTransformation_anchor:
  "list_all (\<lambda>t. fst t = st) (swapTransformation src (e, Some st))"
  by (cases e) (simp_all add: swapTransformation_def Let_def)

lemma swapTransformation_not_binary:
  "getKind e \<noteq> BinaryExpression \<Longrightarrow> swapTransformation src (e, anc) = []"
  by (cases e) (simp_all add: swapTransformation_def)

lemma swapTransformation_shape:
  assumes "(st, newText) \<in> set (swapTransformation src (e, anc))"
  shows "\<exists>sp lsp rsp l1 l2 r1 r2.
           e = Binary sp (ArrayLit lsp [l1, l2]) EqualsToken (ArrayLit rsp [r1, r2])
           \<and> anc = Some st
           \<and> getKind l1 = ElementAccessExpression \<and> getKind l2 = ElementAccessExpression"
proof -
  from assms have ne: "swapTransformation src (e, anc) \<noteq> []" by force
  with swapTransformation_not_binary [of e src anc] have "getKind e = BinaryExpression" by blast
  then obtain sp l operator r where e: "e = Binary sp l operator r" by (cases e) simp_all
  from ne e swapTransformation_empty [of operator l r anc src sp]
  have op: "operator = EqualsToken"
    and kinds: "getKind l = ArrayLiteralExpression" "getKind r = ArrayLiteralExpression"
    and lens: "length (getElements l) = 2" "length (getElements r) = 2"
    and anc: "anc \<noteq> None"
    and acc: "getKind (getElements l ! 0) = ElementAccessExpression"
             "getKind (getElements l ! 1) = ElementAccessExpression"
    by blast+
  from arrayLiteral_two_elements [OF kinds(1) lens(1)] obtain lsp l1 l2
    where l: "l = ArrayLit lsp [l1, l2]" by blast
  from arrayLiteral_two_elements [OF kinds(2) lens(2)] obtain rsp r1 r2
    where r: "r = ArrayLit rsp [r1, r2]" by blast
  from anc obtain st' where st': "anc = Some st'" by blast
  with assms swapTransformation_anchor [of st' src e] have "st = st'"
    by (auto simp: list_all_iff)
  with e op l r st' acc show ?thesis by simp
qed

text \<open>
  C4 (as amended). Swap instrumentation is emitted for a statement only when the
  statement is an expression statement that holds an assignment \<open>=\<close> between two
  array literals of exactly two elements each whose two left-hand elements are indexed
  accesses. Assignments between tuples of any other size are left uninstrumented.
\<close>

theorem swap_instrumentation_only_for_pairs:
  assumes "(st, newText) \<in> set (collectArraySwaps sf)"
  shows "\<exists>sp lsp rsp l1 l2 r1 r2.
           (Binary sp (ArrayLit lsp [l1, l2]) EqualsToken (ArrayLit rsp [r1, r2]), Some st)
             \<in> set (allBinaryExpressions sf)
           \<and> getKind l1 = ElementAccessExpression \<and> getKind l2 = ElementAccessExpression"
proof -
  from assms obtain e anc where mem: "(e, anc) \<in> set (allBinaryExpressions sf)"
    and tr: "(st, newText) \<in> set (swapTransformation (fullText sf) (e, anc))"
    by (auto simp: collectArraySwaps_def)
  from swapTransformation_shape [OF tr] mem show ?thesis by blast
qed

lemma canonical_swap_collected:
  "collectArraySwaps
     \<lparr>fullText = ''[a[0],a[1]]=[a[1],a[0]];'',
      statements = fst (the (parseStatements ''[a[0],a[1]]=[a[1],a[0]];''))\<rparr>
   = [(ExpressionStmt (0, 24)
        (Binary (0, 23)
          (ArrayLit (0, 11)
            [ElementAccess (1, 5) (Ident (1, 2)) (Some (Num (3, 4))),
             ElementAccess (6, 10) (Ident (6, 7)) (Some (Num (8, 9)))])
          EqualsToken
          (ArrayLit (12, 23)
            [ElementAccess (13, 17) (Ident (13, 14)) (Some (Num (15, 16))),
             ElementAccess (18, 22) (Ident (18, 19)) (Some (Num (20, 21)))])),
       ''[a[0],a[1]]=[a[1],a[0]];\<newline>__trace.arrayWrite('' @ [quote] @ ''a'' @ [quote]
         @ '', 0, a[0]);\<newline>__trace.arrayWrite('' @ [quote] @ ''a'' @ [quote]
         @ '', 1, a[1]);\<newline>__trace.assign('' @ [quote] @ ''a'' @ [quote] @ '', a);'')]"
  by code_simp

theorem swap_instrumentation_only_for_pairs_witness:
  "\<exists>st newText sp lsp rsp l1 l2 r1 r2.
     (st, newText) \<in> set (collectArraySwaps
        \<lparr>fullText = ''[a[0],a[1]]=[a[1],a[0]];'',
         statements = fst (the (parseStatements ''[a[0],a[1]]=[a[1],a[0]];''))\<rparr>)
     \<and> (Binary sp (ArrayLit lsp [l1, l2]) EqualsToken (ArrayLit rsp [r1, r2]), Some st)
          \<in> set (allBinaryExpressions
        \<lparr>fullText = ''[a[0],a[1]]=[a[1],a[0]];'',
         statements = fst (the (parseStatements ''[a[0],a[1]]=[a[1],a[0]];''))\<rparr>)
     \<and> getKind l1 = ElementAccessExpression \<and> getKind l2 = ElementAccessExpression"
proof -
  let ?sf = "\<lparr>fullText = ''[a[0],a[1]]=[a[1],a[0]];'',
         statements = fst (the (parseStatements ''[a[0],a[1]]=[a[1],a[0]];''))\<rparr>"
  from canonical_swap_collected obtain st newText
    where mem: "(st, newText) \<in> set (collectArraySwaps ?sf)"
    by (metis list.set_intros(1))
  from swap_instrumentation_only_for_pairs [OF mem] mem show ?thesis by blast
qed

text \<open>
  The reciprocal shape is not what the code checks: \<open>[a[0],a[1]]=[5,6];\<close> is
  instrumented as a swap although its right-hand side holds no indexed access and does
  not mirror the left-hand side.
\<close>

theorem swap_instrumented_without_reciprocal_shape:
  "parseStatements ''[a[0],a[1]]=[5,6];'' =
     Some ([ExpressionStmt (0, 18)
            (Binary (0, 17)
              (ArrayLit (0, 11)
                [ElementAccess (1, 5) (Ident (1, 2)) (Some (Num (3, 4))),
                 ElementAccess (6, 10) (Ident (6, 7)) (Some (Num (8, 9)))])
              EqualsToken (ArrayLit (12, 17) [Num (13, 14), Num (15, 16)]))], None)
   \<and> map_option code (instrument fragmentParser ''[a[0],a[1]]=[5,6];'' \<lparr>filePath = None\<rparr>) =
       Some (''[a[0],a[1]]=[5,6];\<newline>__trace.arrayWrite('' @ [quote] @ ''a'' @ [quote]
         @ '', 0, a[0]);\<newline>__trace.arrayWrite('' @ [quote] @ ''a'' @ [quote]
         @ '', 1, a[1]);\<newline>__trace.assign('' @ [quote] @ ''a'' @ [quote] @ '', a);'')
   \<and> \<not> reciprocalSwapShape ''[a[0],a[1]]=[5,6];''
          (Binary (0, 17)
              (ArrayLit (0, 11)
                [ElementAccess (1, 5) (Ident (1, 2)) (Some (Num (3, 4))),
                 ElementAccess (6, 10) (Ident (6, 7)) (Some (Num (8, 9)))])
              EqualsToken (ArrayLit (12, 17) [Num (13, 14), Num (15, 16)]))"
  by code_simp

lemma canonical_swap_has_reciprocal_shape:
  "reciprocalSwapShape ''[a[0],a[1]]=[a[1],a[0]];''
     (Binary (0, 23)
          (ArrayLit (0, 11)
            [ElementAccess (1, 5) (Ident (1, 2)) (Some (Num (3, 4))),
             ElementAccess (6, 10) (Ident (6, 7)) (Some (Num (8, 9)))])
          EqualsToken
          (ArrayLit (12, 23)
            [ElementAccess (13, 17) (Ident (13, 14)) (Some (Num (15, 16))),
             ElementAccess (18, 22) (Ident (18, 19)) (Some (Num (20, 21)))]))"
  by code_simp

lemma mismatched_collections_are_instrumented:
  "map_option code
     (instrument fragmentParser ''[a[0],b[1]]=[b[1],a[0]];'' \<lparr>filePath = None\<rparr>) =
     Some (''[a[0],b[1]]=[b[1],a[0]];\<newline>__trace.arrayWrite('' @ [quote] @ ''a'' @ [quote]
       @ '', 0, a[0]);\<newline>__trace.arrayWrite('' @ [quote] @ ''a'' @ [quote]
       @ '', 1, a[1]);\<newline>__trace.assign('' @ [quote] @ ''a'' @ [quote] @ '', a);'')"
  by code_simp

lemma larger_tuples_are_not_instrumented:
  "map_option code
     (instrument fragmentParser ''[a[0],a[1],a[2]]=[a[2],a[1],a[0]];'' \<lparr>filePath = None\<rparr>) =
     Some ''[a[0],a[1],a[2]]=[a[2],a[1],a[0]];''"
  by code_simp


subsection \<open>The transform only inserts\<close>














subsection \<open>What is left unchanged\<close>











lemma named_constructs_are_found:
  "containsNamedConstruct fragmentParser ''const a=[2,1];'' \<lparr>filePath = None\<rparr>"
  "containsNamedConstruct fragmentParser ''[a[0],a[1]]=[a[1],a[0]];'' \<lparr>filePath = None\<rparr>"
  "containsNamedConstruct fragmentParser ''a[0] = 1;'' \<lparr>filePath = None\<rparr>"
  "containsConstruct fragmentParser ''[a[0],a[1]]=[5,6];'' \<lparr>filePath = None\<rparr>"
  by code_simp+







end
